theory Spec2Isabelle
  imports Complex_Main
begin

section \<open>Telegram relay bot: shallow embedding of the two scripts\<close>

text \<open>
  The repository holds two scripts: \<^verbatim>\<open>src/main.py\<close> and a second one,
  \<^verbatim>\<open>src/unnamed/part_000\<close> (headed \<^verbatim>\<open>main (1).py\<close>). A definition named as
  in the source embeds \<^verbatim>\<open>main.py\<close>; the same name with the suffix \<open>2\<close> embeds the
  second script. Where both scripts have the same text (the two admin commands) there is
  one definition.

  Conventions of the embedding:
  \<^item> a Python \<^verbatim>\<open>str\<close> is the list of its Unicode code points (\<open>pystr\<close>); internal tags
    that are plain ASCII (\<^verbatim>\<open>"available"\<close>, \<^verbatim>\<open>"hindi"\<close>, command names) are HOL strings;
  \<^item> \<^verbatim>\<open>time.time()\<close> is a rational number of seconds and \<^verbatim>\<open>now - last\<close> is taken
    exactly;
  \<^item> a handler takes the state (\<^verbatim>\<open>bot_data\<close> and every user's \<^verbatim>\<open>user_data\<close>) and
    returns the transport calls it issues, in order, with the new state;
  \<^item> what the environment decides is an input: the clock, the outcome of
    \<^verbatim>\<open>forward_message\<close>, the behaviour of the generative service, the draw of
    \<^verbatim>\<open>random.choice\<close>; \<^verbatim>\<open>str.lower\<close> of the Python library is a parameter \<open>lower\<close>;
  \<^item> \<^verbatim>\<open>ADMIN_ID\<close>, read from the environment at startup, is a parameter of the handlers.

  Scope: an update carries a message with a sender, and updates are handled one at a time.
  A transport call is listed when the handler issues it; of the transport calls only the
  forward has its failure modelled, the one whose failure the scripts handle. Of the
  failures of the service, those that are Python \<^verbatim>\<open>Exception\<close>s are modelled.
\<close>

subsection \<open>Strings\<close>

type_synonym pystr = "nat list"

definition ascii :: "string \<Rightarrow> pystr" where
  "ascii s = map of_char s"

text \<open>\<^verbatim>\<open>re.search(r'[lo-hi]', text)\<close>: some code point of the text lies in the range.\<close>

definition re_search_range :: "nat \<Rightarrow> nat \<Rightarrow> pystr \<Rightarrow> bool" where
  "re_search_range lo hi text = list_ex (\<lambda>c. lo \<le> c \<and> c \<le> hi) text"

text \<open>\<^verbatim>\<open>re.search(r'[A-Za-z]', text)\<close>.\<close>

definition re_search_latin :: "pystr \<Rightarrow> bool" where
  "re_search_latin text = list_ex (\<lambda>c. (0x41 \<le> c \<and> c \<le> 0x5A) \<or> (0x61 \<le> c \<and> c \<le> 0x7A)) text"

subsection \<open>Language detection\<close>

text \<open>\<^verbatim>\<open>main.py\<close>, \<^verbatim>\<open>detect_language\<close>: Devanagari is tested first, then Bengali.\<close>

definition detect_language :: "pystr \<Rightarrow> string" where
  "detect_language text =
     (if re_search_range 0x0900 0x097F text then ''hindi''
      else if re_search_range 0x0980 0x09FF text then ''bengali''
      else if re_search_latin text then ''english''
      else ''english'')"

text \<open>Second script, \<^verbatim>\<open>detect_language\<close>: Bengali or English only.\<close>

definition detect_language2 :: "pystr \<Rightarrow> string" where
  "detect_language2 text =
     (if re_search_range 0x0980 0x09FF text then ''bengali'' else ''english'')"

text \<open>The two Unicode blocks, as predicates on texts.\<close>

definition has_bengali :: "pystr \<Rightarrow> bool" where
  "has_bengali text = list_ex (\<lambda>c. 0x0980 \<le> c \<and> c \<le> 0x09FF) text"

definition has_devanagari :: "pystr \<Rightarrow> bool" where
  "has_devanagari text = list_ex (\<lambda>c. 0x0900 \<le> c \<and> c \<le> 0x097F) text"


text \<open>\<^verbatim>\<open>needle in haystack\<close> on strings: the needle occurs as a contiguous piece.\<close>

fun py_in :: "pystr \<Rightarrow> pystr \<Rightarrow> bool" where
  "py_in needle [] = (needle = [])"
| "py_in needle (c # cs) = (take (length needle) (c # cs) = needle \<or> py_in needle cs)"

text \<open>The code points \<^verbatim>\<open>str.strip()\<close> removes at both ends (\<^verbatim>\<open>str.isspace\<close>).\<close>

definition py_isspace :: "nat \<Rightarrow> bool" where
  "py_isspace c =
     ((0x09 \<le> c \<and> c \<le> 0x0D) \<or> (0x1C \<le> c \<and> c \<le> 0x20) \<or> c = 0x85 \<or> c = 0xA0
      \<or> c = 0x1680 \<or> (0x2000 \<le> c \<and> c \<le> 0x200A) \<or> c = 0x2028 \<or> c = 0x2029
      \<or> c = 0x202F \<or> c = 0x205F \<or> c = 0x3000)"

definition strip :: "pystr \<Rightarrow> pystr" where
  "strip s = rev (dropWhile py_isspace (rev (dropWhile py_isspace s)))"

text \<open>\<^verbatim>\<open>random.choice(xs)\<close> on a non-empty list, \<open>r\<close> being the draw.\<close>

definition random_choice :: "'a list \<Rightarrow> nat \<Rightarrow> 'a" where
  "random_choice xs r = xs ! (r mod length xs)"

subsection \<open>State, messages, transport calls, environment\<close>

text \<open>
  \<^verbatim>\<open>context.user_data\<close> of one user. A key that is absent is \<open>None\<close>; the scripts
  read both keys with a default.
\<close>

record user_data =
  last_time :: "rat option"
  busy_shown :: "bool option"

text \<open>
  \<^verbatim>\<open>context.bot_data\<close>. \<open>admin_status_changed\<close> is \<open>None\<close> both when the key is
  absent and when it holds Python's \<^verbatim>\<open>None\<close> (it is only read with \<^verbatim>\<open>.get\<close>);
  \<open>forwarded_map\<close> is the dictionary under that key, empty when the key is absent (it
  is only reached through \<^verbatim>\<open>.get(..., {})\<close> and \<^verbatim>\<open>.setdefault(..., {})\<close>).
\<close>

record bot_data =
  admin_available :: "bool option"
  admin_status_changed :: "string option"
  forwarded_map :: "int \<rightharpoonup> int"

record store =
  bdata :: bot_data
  udata :: "int \<Rightarrow> user_data"

text \<open>
  An incoming update with a message. \<open>msg_text\<close> is \<^verbatim>\<open>update.message.text\<close>, \<open>[]\<close>
  when the message has none; \<open>command\<close> is the name of the bot command the text starts
  with, if it starts with one; \<open>reply_to_message\<close> is the id of the message replied to.
\<close>

record message =
  effective_user_id :: int
  first_name :: pystr
  effective_chat_id :: int
  message_id :: int
  msg_text :: pystr
  command :: "string option"
  reply_to_message :: "int option"
  photo :: bool

text \<open>
  The calls a handler makes on the transport. \<^verbatim>\<open>update.message.reply_text(t)\<close> is
  \<open>SendText\<close> to the chat of the incoming message.
\<close>

datatype action =
    SendText int pystr
  | ForwardMessage int int int

text \<open>
  A response object of the generative service: its \<^verbatim>\<open>text\<close> (\<open>None\<close> when the
  attribute is missing or \<^verbatim>\<open>None\<close>), the string forms of the contents of its
  candidates, and \<^verbatim>\<open>str(resp)\<close>.
\<close>

record response =
  resp_text :: "pystr option"
  resp_candidates :: "pystr list"
  resp_str :: pystr

text \<open>
  What one call of the service does: \<^verbatim>\<open>generate_content\<close> raises an exception with the
  given message, or returns a response, or \<^verbatim>\<open>asyncio.to_thread\<close> itself raises.
\<close>

datatype gemini_behaviour =
    GenRaises pystr
  | GenReturns response
  | ThreadRaises pystr

text \<open>
  The environment of one handler run: the clock, the outcome of \<^verbatim>\<open>forward_message\<close>
  (the id of the new message, \<open>None\<close> when the call raises), the service, the random draw.
\<close>

record env =
  now :: rat
  fwd :: "int option"
  gemini :: gemini_behaviour
  rnd :: nat

subsection \<open>Fixed texts\<close>

definition typing_text :: pystr where
  "typing_text = [0x1F4AC] @ ascii '' Bot is typing'' @ [0x2026]"

definition message_sent :: pystr where
  "message_sent = ascii ''Message sent '' @ [0x2705]"

definition FALLBACK_RESPONSES :: "pystr list" where
  "FALLBACK_RESPONSES = [ascii ''Message sent '' @ [0x2705] @ ascii ''.'']"

definition FALLBACK_RESPONSES2 :: "pystr list" where
  "FALLBACK_RESPONSES2 = [ascii ''Message sent '' @ [0x2705]]"

definition not_allowed :: pystr where
  "not_allowed = [0x274C] @ ascii '' Not allowed.''"

definition now_available :: pystr where
  "now_available = [0x1F7E2] @ ascii '' Admin is now available.''"

definition now_away :: pystr where
  "now_away = [0x1F534] @ ascii '' Admin is now away.''"

definition user_not_found :: pystr where
  "user_not_found = [0x274C] @ ascii '' User not found.''"

definition sent_to_user :: pystr where
  "sent_to_user = [0x2705] @ ascii '' Sent to user.''"

definition start_text :: pystr where
  "start_text = [0x1F44B] @ ascii '' Welcome! Send hi to begin '' @ [0x2728]"

definition available_notice :: pystr where
  "available_notice = [0x1F7E2] @ ascii '' Admin is available. You can chat now.''"

definition away_notice :: pystr where
  "away_notice = [0x1F534] @ ascii '' Admin is busy.'' @ [0x0A, 0x1F4E8]
     @ ascii '' Message sent.'' @ [0x0A, 0x23F3] @ ascii '' Reply within 48 hours.''"

definition available_notice2 :: pystr where
  "available_notice2 = [0x1F7E2] @ ascii '' Admin available.''"

definition busy_text2 :: pystr where
  "busy_text2 = [0x1F534] @ ascii '' Admin busy.'' @ [0x0A] @ ascii ''Message sent ''
     @ [0x2705, 0x0A, 0x23F3] @ ascii '' Reply within 48 hours.''"

subsection \<open>The generative service\<close>

text \<open>
  \<^verbatim>\<open>main.py\<close>, \<^verbatim>\<open>ask_gemini\<close> with its inner \<^verbatim>\<open>call\<close>: an exception of
  \<^verbatim>\<open>generate_content\<close> is caught inside and gives the entry of
  \<^verbatim>\<open>FALLBACK_RESPONSES\<close>; a response gives its stripped text when that is non-empty,
  else the stripped content of its first candidate, else \<^verbatim>\<open>str(resp)\<close>. \<open>Inl\<close> is an
  exception leaving the function.
\<close>

definition ask_gemini :: "env \<Rightarrow> pystr + pystr" where
  "ask_gemini e =
     (case gemini e of
        ThreadRaises x \<Rightarrow> Inl x
      | GenRaises x \<Rightarrow> Inr (random_choice FALLBACK_RESPONSES (rnd e))
      | GenReturns resp \<Rightarrow>
          (case resp_text resp of
             Some (c # cs) \<Rightarrow> Inr (strip (c # cs))
           | _ \<Rightarrow>
              (case resp_candidates resp of
                 cand # _ \<Rightarrow> Inr (strip cand)
               | [] \<Rightarrow> Inr (resp_str resp))))"

text \<open>\<^verbatim>\<open>main.py\<close>, \<^verbatim>\<open>safe_ask_gemini\<close>.\<close>

definition safe_ask_gemini :: "(pystr \<Rightarrow> pystr) \<Rightarrow> env \<Rightarrow> pystr + pystr" where
  "safe_ask_gemini lower e =
     (case ask_gemini e of
        Inr t \<Rightarrow> Inr t
      | Inl x \<Rightarrow>
          if py_in (ascii ''429'') x \<or> py_in (ascii ''rate'') (lower x)
          then Inr (random_choice FALLBACK_RESPONSES (rnd e))
          else Inr (ascii ''Message sent '' @ [0x2705]))"

text \<open>
  Second script, \<^verbatim>\<open>ask_gemini\<close>: the stripped text when non-empty, else the fixed
  text; the bare \<^verbatim>\<open>except\<close> around \<^verbatim>\<open>generate_content\<close> gives the fixed text too.
\<close>

definition ask_gemini2 :: "env \<Rightarrow> pystr + pystr" where
  "ask_gemini2 e =
     (case gemini e of
        ThreadRaises x \<Rightarrow> Inl x
      | GenRaises x \<Rightarrow> Inr (ascii ''Message sent '' @ [0x2705])
      | GenReturns resp \<Rightarrow>
          (case resp_text resp of
             Some (c # cs) \<Rightarrow> Inr (strip (c # cs))
           | _ \<Rightarrow> Inr (ascii ''Message sent '' @ [0x2705])))"

definition safe_ask_gemini2 :: "env \<Rightarrow> pystr + pystr" where
  "safe_ask_gemini2 e =
     (case ask_gemini2 e of
        Inr t \<Rightarrow> Inr t
      | Inl x \<Rightarrow> Inr (random_choice FALLBACK_RESPONSES2 (rnd e)))"

text \<open>
  Second script, \<^verbatim>\<open>smart_welcome(name, lang)\<close>: name and language only go into the
  prompt, and the outcome of the service is an input here.
\<close>

definition smart_welcome2 :: "pystr \<Rightarrow> string \<Rightarrow> env \<Rightarrow> pystr + pystr" where
  "smart_welcome2 name lang e =
     (case safe_ask_gemini2 e of Inl x \<Rightarrow> Inl x | Inr reply \<Rightarrow> Inr (strip reply))"

subsection \<open>Cooldown gate\<close>

text \<open>
  \<^verbatim>\<open>context.user_data.get("last_time", 0)\<close>, then \<^verbatim>\<open>user_spam\<close> of \<^verbatim>\<open>main.py\<close>: the
  result and the user's data afterwards.
\<close>

definition get_last_time :: "user_data \<Rightarrow> rat" where
  "get_last_time ud = (case last_time ud of None \<Rightarrow> 0 | Some l \<Rightarrow> l)"

definition user_spam :: "rat \<Rightarrow> user_data \<Rightarrow> bool \<times> user_data" where
  "user_spam t ud =
     (let last = get_last_time ud
      in if t - last < 3 / 2 then (True, ud)
         else (False, ud\<lparr>last_time := Some t\<rparr>))"

text \<open>
  Second script: the bound is the literal \<^verbatim>\<open>1.2\<close>, the double
  \<open>5404319552844595 / 2 ^ 52\<close>.
\<close>

definition cooldown2 :: rat where
  "cooldown2 = 5404319552844595 / 4503599627370496"

definition user_spam2 :: "rat \<Rightarrow> user_data \<Rightarrow> bool \<times> user_data" where
  "user_spam2 t ud =
     (let last = get_last_time ud
      in if t - last < cooldown2 then (True, ud)
         else (False, ud\<lparr>last_time := Some t\<rparr>))"

subsection \<open>Admin commands (the same text in both scripts)\<close>

definition available_cmd :: "int \<Rightarrow> message \<Rightarrow> store \<Rightarrow> action list \<times> store" where
  "available_cmd ADMIN_ID m s =
     (if effective_user_id m \<noteq> ADMIN_ID
      then ([SendText (effective_chat_id m) not_allowed], s)
      else ([SendText (effective_chat_id m) now_available],
            s\<lparr>bdata := (bdata s)\<lparr>admin_available := Some True,
                                  admin_status_changed := Some ''available''\<rparr>\<rparr>))"

definition away_cmd :: "int \<Rightarrow> message \<Rightarrow> store \<Rightarrow> action list \<times> store" where
  "away_cmd ADMIN_ID m s =
     (if effective_user_id m \<noteq> ADMIN_ID
      then ([SendText (effective_chat_id m) not_allowed], s)
      else ([SendText (effective_chat_id m) now_away],
            s\<lparr>bdata := (bdata s)\<lparr>admin_available := Some False,
                                  admin_status_changed := Some ''away''\<rparr>\<rparr>))"

subsection \<open>Correlation map\<close>

text \<open>
  Recording, as in \<^verbatim>\<open>handle_message\<close> and \<^verbatim>\<open>photo_handler\<close>:
  \<^verbatim>\<open>bot_data.setdefault("forwarded_map", {})[fwd.message_id] = chat id\<close>.
\<close>

definition record_forward :: "int \<Rightarrow> int \<Rightarrow> bot_data \<Rightarrow> bot_data" where
  "record_forward fid chat bd = bd\<lparr>forwarded_map := (forwarded_map bd)(fid \<mapsto> chat)\<rparr>"

text \<open>
  Looking up, as in \<^verbatim>\<open>admin_reply_handler\<close>:
  \<^verbatim>\<open>user_chat = bot_data.get("forwarded_map", {}).get(forwarded_id)\<close> followed by the test
  \<^verbatim>\<open>if not user_chat\<close>, which holds for \<^verbatim>\<open>None\<close> and for \<^verbatim>\<open>0\<close>. \<open>None\<close> is
  the not-found outcome.
\<close>

definition resolve :: "int \<Rightarrow> bot_data \<Rightarrow> int option" where
  "resolve forwarded_id bd =
     (case forwarded_map bd forwarded_id of
        None \<Rightarrow> None
      | Some user_chat \<Rightarrow> if user_chat = 0 then None else Some user_chat)"

text \<open>\<^verbatim>\<open>main.py\<close>, \<^verbatim>\<open>admin_reply_handler\<close>.\<close>

definition admin_reply_handler :: "int \<Rightarrow> message \<Rightarrow> store \<Rightarrow> action list \<times> store" where
  "admin_reply_handler ADMIN_ID m s =
     (if effective_user_id m \<noteq> ADMIN_ID then ([], s)
      else case reply_to_message m of
             None \<Rightarrow> ([], s)
           | Some forwarded_id \<Rightarrow>
               (case resolve forwarded_id (bdata s) of
                  None \<Rightarrow> ([SendText (effective_chat_id m) user_not_found], s)
                | Some user_chat \<Rightarrow>
                    ([SendText user_chat ([0x1F4AC] @ ascii '' Admin: '' @ msg_text m),
                      SendText (effective_chat_id m) sent_to_user], s)))"

text \<open>Second script, \<^verbatim>\<open>admin_reply_handler\<close>.\<close>

definition admin_reply_handler2 :: "int \<Rightarrow> message \<Rightarrow> store \<Rightarrow> action list \<times> store" where
  "admin_reply_handler2 ADMIN_ID m s =
     (if effective_user_id m \<noteq> ADMIN_ID then ([], s)
      else case reply_to_message m of
             None \<Rightarrow> ([], s)
           | Some forwarded_id \<Rightarrow>
               (case resolve forwarded_id (bdata s) of
                  None \<Rightarrow> ([SendText (effective_chat_id m) user_not_found], s)
                | Some user_chat \<Rightarrow>
                    ([SendText user_chat (msg_text m),
                      SendText (effective_chat_id m) message_sent], s)))"

subsection \<open>Pieces shared by the message handlers\<close>

text \<open>\<^verbatim>\<open>type_animation\<close>: the filler reply (a failure of it is swallowed), then a pause.\<close>

definition type_animation :: "message \<Rightarrow> action list" where
  "type_animation m = [SendText (effective_chat_id m) typing_text]"

text \<open>
  The \<^verbatim>\<open>try\<close> block of \<^verbatim>\<open>handle_message\<close> and \<^verbatim>\<open>photo_handler\<close>: the forward to the
  admin is called and, when it returns, the sender's chat is recorded under the id of the
  new message; when it raises, the exception is swallowed and nothing is recorded.
\<close>

definition forward_to_admin :: "int \<Rightarrow> env \<Rightarrow> message \<Rightarrow> bot_data \<Rightarrow> action list \<times> bot_data" where
  "forward_to_admin ADMIN_ID e m bd =
     ([ForwardMessage ADMIN_ID (effective_chat_id m) (message_id m)],
      case fwd e of
        None \<Rightarrow> bd
      | Some fid \<Rightarrow> record_forward fid (effective_chat_id m) bd)"

text \<open>
  The one-time status notice of \<^verbatim>\<open>handle_message\<close>: \<^verbatim>\<open>admin_status_changed\<close> is
  read, and when it is \<^verbatim>\<open>"available"\<close> or \<^verbatim>\<open>"away"\<close> it is set to \<^verbatim>\<open>None\<close> and
  the matching notice is sent. The result is the notice to send, if any.
\<close>

definition consume_pending_notice :: "bot_data \<Rightarrow> string option \<times> bot_data" where
  "consume_pending_notice bd =
     (let admin_status = admin_status_changed bd
      in if admin_status = Some ''available''
         then (Some ''available'', bd\<lparr>admin_status_changed := None\<rparr>)
         else if admin_status = Some ''away''
         then (Some ''away'', bd\<lparr>admin_status_changed := None\<rparr>)
         else (None, bd))"

subsection \<open>Handlers of \<^verbatim>\<open>main.py\<close>\<close>

definition start_cmd :: "message \<Rightarrow> store \<Rightarrow> action list \<times> store" where
  "start_cmd m s = (type_animation m @ [SendText (effective_chat_id m) start_text], s)"

text \<open>
  \<^verbatim>\<open>handle_message\<close>. The prompt interpolates \<^verbatim>\<open>lang\<close> and \<^verbatim>\<open>text\<close> only and goes
  to the service, whose outcome is in the environment.
\<close>

definition handle_message ::
  "int \<Rightarrow> (pystr \<Rightarrow> pystr) \<Rightarrow> env \<Rightarrow> message \<Rightarrow> store \<Rightarrow> action list \<times> store" where
  "handle_message ADMIN_ID lower e m s =
     (let u = effective_user_id m;
          chat = effective_chat_id m;
          (blocked, ud) = user_spam (now e) (udata s u)
      in if blocked then ([], s)
         else
           let txt = take 500 (msg_text m);
               lang = detect_language txt;
               (fwd_acts, bd1) = forward_to_admin ADMIN_ID e m (bdata s);
               acts = fwd_acts @ type_animation m;
               (notice, bd2) = consume_pending_notice bd1
           in if notice = Some ''available''
              then (acts @ [SendText chat available_notice],
                    \<lparr>bdata = bd2, udata = (udata s)(u := ud)\<rparr>)
              else if notice = Some ''away''
              then (acts @ [SendText chat away_notice],
                    \<lparr>bdata = bd2, udata = (udata s)(u := ud)\<rparr>)
              else
                let first_time = (busy_shown ud \<noteq> Some True);
                    ud' = ud\<lparr>busy_shown := Some True\<rparr>;
                    admin_available = (admin_available bd2 = Some True);
                    s' = \<lparr>bdata = bd2, udata = (udata s)(u := ud')\<rparr>
                in case safe_ask_gemini lower e of
                     Inr ai_reply \<Rightarrow> (acts @ [SendText chat ai_reply], s')
                   | Inl x \<Rightarrow> (acts, s'))"

subsection \<open>Handlers of the second script\<close>

definition start_cmd2 :: "env \<Rightarrow> message \<Rightarrow> store \<Rightarrow> action list \<times> store" where
  "start_cmd2 e m s =
     (let name = (if first_name m = [] then ascii ''Friend'' else first_name m);
          lang = ''english''
      in case smart_welcome2 name lang e of
           Inr welcome \<Rightarrow> ([SendText (effective_chat_id m) welcome], s)
         | Inl x \<Rightarrow> ([], s))"

definition photo_handler2 :: "int \<Rightarrow> env \<Rightarrow> message \<Rightarrow> store \<Rightarrow> action list \<times> store" where
  "photo_handler2 ADMIN_ID e m s =
     (let (fwd_acts, bd1) = forward_to_admin ADMIN_ID e m (bdata s)
      in (fwd_acts @ [SendText (effective_chat_id m) message_sent], s\<lparr>bdata := bd1\<rparr>))"

definition greetings :: "pystr list" where
  "greetings = map ascii [''hi'', ''hello'', ''hey'', ''hlo'', ''hola'', ''namaste'',
     ''salam'', ''assalamualaikum'']"

definition handle_message2 ::
  "int \<Rightarrow> (pystr \<Rightarrow> pystr) \<Rightarrow> env \<Rightarrow> message \<Rightarrow> store \<Rightarrow> action list \<times> store" where
  "handle_message2 ADMIN_ID lower e m s =
     (let u = effective_user_id m;
          chat = effective_chat_id m;
          (blocked, ud) = user_spam2 (now e) (udata s u)
      in if blocked then ([], s)
         else
           let txt = take 500 (msg_text m);
               lang = detect_language2 txt;
               name = (if first_name m = [] then ascii ''Friend'' else first_name m)
           in if lower txt \<in> set greetings
              then (case smart_welcome2 name lang e of
                      Inr greeting \<Rightarrow>
                        ([SendText chat greeting], s\<lparr>udata := (udata s)(u := ud)\<rparr>)
                    | Inl x \<Rightarrow> ([], s\<lparr>udata := (udata s)(u := ud)\<rparr>))
              else
                let (fwd_acts, bd1) = forward_to_admin ADMIN_ID e m (bdata s);
                    acts = fwd_acts @ type_animation m;
                    (notice, bd2) = consume_pending_notice bd1
                in if notice = Some ''available''
                   then (acts @ [SendText chat available_notice2],
                         \<lparr>bdata = bd2, udata = (udata s)(u := ud)\<rparr>)
                   else if notice = Some ''away''
                   then (acts @ [SendText chat busy_text2],
                         \<lparr>bdata = bd2, udata = (udata s)(u := ud)\<rparr>)
                   else
                     let first_time = (busy_shown ud \<noteq> Some True);
                         ud' = ud\<lparr>busy_shown := Some True\<rparr>;
                         admin_available = (admin_available bd2 = Some True);
                         s' = \<lparr>bdata = bd2, udata = (udata s)(u := ud')\<rparr>
                     in if admin_available then (acts @ [SendText chat message_sent], s')
                        else if first_time then (acts @ [SendText chat busy_text2], s')
                        else (acts @ [SendText chat message_sent], s'))"

subsection \<open>Dispatch\<close>

text \<open>
  The filters of the library, on the message record: \<^verbatim>\<open>filters.TEXT\<close> (the message has
  text), \<^verbatim>\<open>filters.REPLY\<close>, \<^verbatim>\<open>filters.COMMAND\<close> (the text starts with a bot
  command), \<^verbatim>\<open>filters.PHOTO\<close>, and the test of \<^verbatim>\<open>CommandHandler(name, ...)\<close>.
\<close>

definition filters_TEXT :: "message \<Rightarrow> bool" where
  "filters_TEXT m = (msg_text m \<noteq> [])"

definition filters_REPLY :: "message \<Rightarrow> bool" where
  "filters_REPLY m = (reply_to_message m \<noteq> None)"

definition filters_COMMAND :: "message \<Rightarrow> bool" where
  "filters_COMMAND m = (command m \<noteq> None)"

definition filters_PHOTO :: "message \<Rightarrow> bool" where
  "filters_PHOTO m = photo m"

definition command_handler :: "string \<Rightarrow> message \<Rightarrow> bool" where
  "command_handler name m = (command m = Some name)"

text \<open>
  \<^verbatim>\<open>main()\<close> of \<^verbatim>\<open>main.py\<close>: the handlers in the order of their registration; an
  update goes to the first one that accepts it, and to none when no one does.
\<close>

definition dispatch ::
  "int \<Rightarrow> (pystr \<Rightarrow> pystr) \<Rightarrow> env \<Rightarrow> message \<Rightarrow> store \<Rightarrow> action list \<times> store" where
  "dispatch ADMIN_ID lower e m s =
     (if command_handler ''start'' m then start_cmd m s
      else if command_handler ''available'' m then available_cmd ADMIN_ID m s
      else if command_handler ''away'' m then away_cmd ADMIN_ID m s
      else if filters_REPLY m \<and> filters_TEXT m then admin_reply_handler ADMIN_ID m s
      else if filters_TEXT m \<and> \<not> filters_COMMAND m then handle_message ADMIN_ID lower e m s
      else ([], s))"

text \<open>\<^verbatim>\<open>main()\<close> of the second script, with the photo handler.\<close>

definition dispatch2 ::
  "int \<Rightarrow> (pystr \<Rightarrow> pystr) \<Rightarrow> env \<Rightarrow> message \<Rightarrow> store \<Rightarrow> action list \<times> store" where
  "dispatch2 ADMIN_ID lower e m s =
     (if command_handler ''start'' m then start_cmd2 e m s
      else if command_handler ''available'' m then available_cmd ADMIN_ID m s
      else if command_handler ''away'' m then away_cmd ADMIN_ID m s
      else if filters_REPLY m \<and> filters_TEXT m then admin_reply_handler2 ADMIN_ID m s
      else if filters_PHOTO m then photo_handler2 ADMIN_ID e m s
      else if filters_TEXT m \<and> \<not> filters_COMMAND m then handle_message2 ADMIN_ID lower e m s
      else ([], s))"

text \<open>The process: updates are handled one after the other, each in its environment.\<close>

fun run :: "int \<Rightarrow> (pystr \<Rightarrow> pystr) \<Rightarrow> (env \<times> message) list \<Rightarrow> store \<Rightarrow> store" where
  "run ADMIN_ID lower [] s = s"
| "run ADMIN_ID lower ((e, m) # evs) s = run ADMIN_ID lower evs (snd (dispatch ADMIN_ID lower e m s))"

fun run2 :: "int \<Rightarrow> (pystr \<Rightarrow> pystr) \<Rightarrow> (env \<times> message) list \<Rightarrow> store \<Rightarrow> store" where
  "run2 ADMIN_ID lower [] s = s"
| "run2 ADMIN_ID lower ((e, m) # evs) s =
     run2 ADMIN_ID lower evs (snd (dispatch2 ADMIN_ID lower e m s))"

text \<open>An \<^verbatim>\<open>/available\<close> or \<^verbatim>\<open>/away\<close> command sent by the admin.\<close>

definition admin_toggle :: "int \<Rightarrow> message \<Rightarrow> bool" where
  "admin_toggle ADMIN_ID m =
     (effective_user_id m = ADMIN_ID
      \<and> (command_handler ''available'' m \<or> command_handler ''away'' m))"

text \<open>
  A plain text message: it has text, starts with no bot command, replies to no message
  and carries no photo. \<^verbatim>\<open>main()\<close> of either script hands it to \<^verbatim>\<open>handle_message\<close>.
\<close>

definition is_plain_text :: "message \<Rightarrow> bool" where
  "is_plain_text m =
     (filters_TEXT m \<and> \<not> filters_COMMAND m \<and> \<not> filters_REPLY m \<and> \<not> filters_PHOTO m)"

subsection \<open>Concrete inputs\<close>

text \<open>The state of a fresh process: no key is set in \<^verbatim>\<open>bot_data\<close> or \<^verbatim>\<open>user_data\<close>.\<close>

definition initial_store :: store where
  "initial_store =
     \<lparr>bdata = \<lparr>admin_available = None, admin_status_changed = None,
                forwarded_map = Map.empty\<rparr>,
      udata = (\<lambda>u. \<lparr>last_time = None, busy_shown = None\<rparr>)\<rparr>"

text \<open>A plain text message of user \<open>u\<close> in the private chat, with message id \<open>mid\<close>.\<close>

definition text_message :: "int \<Rightarrow> int \<Rightarrow> pystr \<Rightarrow> message" where
  "text_message u mid t =
     \<lparr>effective_user_id = u, first_name = ascii ''Asha'', effective_chat_id = u,
      message_id = mid, msg_text = t, command = None, reply_to_message = None,
      photo = False\<rparr>"

text \<open>The command \<^verbatim>\<open>/name\<close> sent by user \<open>u\<close>.\<close>

definition command_message :: "int \<Rightarrow> int \<Rightarrow> string \<Rightarrow> message" where
  "command_message u mid name =
     (text_message u mid (ascii (CHR ''/'' # name)))\<lparr>command := Some name\<rparr>"

text \<open>A text message of user \<open>u\<close> that replies to the message with id \<open>r\<close>.\<close>

definition reply_message :: "int \<Rightarrow> int \<Rightarrow> pystr \<Rightarrow> int \<Rightarrow> message" where
  "reply_message u mid t r = (text_message u mid t)\<lparr>reply_to_message := Some r\<rparr>"

text \<open>A photo of user \<open>u\<close>: no text, no command, no reply.\<close>

definition photo_message :: "int \<Rightarrow> int \<Rightarrow> message" where
  "photo_message u mid = (text_message u mid [])\<lparr>photo := True\<rparr>"

text \<open>
  An environment: the clock reads \<open>t\<close>, the forward returns a message with id \<open>fid\<close>,
  the service answers with the text \<open>reply\<close>.
\<close>

definition env_at :: "rat \<Rightarrow> int \<Rightarrow> pystr \<Rightarrow> env" where
  "env_at t fid reply =
     \<lparr>now = t, fwd = Some fid,
      gemini = GenReturns \<lparr>resp_text = Some reply, resp_candidates = [], resp_str = []\<rparr>,
      rnd = 0\<rparr>"

text \<open>\<^verbatim>\<open>str.lower\<close> on ASCII letters, every other code point left as it is.\<close>

definition ascii_lower :: "pystr \<Rightarrow> pystr" where
  "ascii_lower t = map (\<lambda>c. if 0x41 \<le> c \<and> c \<le> 0x5A then c + 32 else c) t"

section \<open>Theorems\<close>

text \<open>The definitions unfolded when a handler is evaluated on a concrete input.\<close>

lemmas eval_defs =
  handle_message_def handle_message2_def user_spam_def user_spam2_def get_last_time_def
  forward_to_admin_def record_forward_def consume_pending_notice_def type_animation_def
  safe_ask_gemini_def ask_gemini_def safe_ask_gemini2_def ask_gemini2_def smart_welcome2_def
  random_choice_def FALLBACK_RESPONSES_def FALLBACK_RESPONSES2_def strip_def py_isspace_def
  ascii_def ascii_lower_def greetings_def cooldown2_def
  env_at_def text_message_def command_message_def reply_message_def photo_message_def
  initial_store_def Let_def

subsection \<open>The service wrappers always return\<close>

lemma safe_ask_gemini_total: "\<exists>t. safe_ask_gemini lower e = Inr t"
  by (simp add: safe_ask_gemini_def ask_gemini_def split: sum.splits gemini_behaviour.splits option.splits list.splits)

lemma safe_ask_gemini2_total: "\<exists>t. safe_ask_gemini2 e = Inr t"
  by (simp add: safe_ask_gemini2_def ask_gemini2_def split: sum.splits gemini_behaviour.splits option.splits list.splits)

subsection \<open>What each handler leaves untouched\<close>

lemma start_cmd_store: "snd (start_cmd m s) = s"
  by (simp add: start_cmd_def)

lemma start_cmd2_store: "snd (start_cmd2 e m s) = s"
  by (simp add: start_cmd2_def Let_def split: sum.splits)

lemma admin_reply_handler_store: "snd (admin_reply_handler ADMIN_ID m s) = s"
  by (simp add: admin_reply_handler_def split: option.splits)

lemma admin_reply_handler2_store: "snd (admin_reply_handler2 ADMIN_ID m s) = s"
  by (simp add: admin_reply_handler2_def split: option.splits)

lemma handle_message_idle:
  "admin_status_changed (bdata s) = None \<Longrightarrow>
     admin_status_changed (bdata (snd (handle_message ADMIN_ID lower e m s))) = None"
  by (auto simp add: handle_message_def user_spam_def forward_to_admin_def record_forward_def
      consume_pending_notice_def Let_def split: prod.splits sum.splits option.splits)

lemma handle_message2_idle:
  "admin_status_changed (bdata s) = None \<Longrightarrow>
     admin_status_changed (bdata (snd (handle_message2 ADMIN_ID lower e m s))) = None"
  by (auto simp add: handle_message2_def user_spam2_def forward_to_admin_def record_forward_def
      consume_pending_notice_def Let_def split: prod.splits sum.splits option.splits)

lemma photo_handler2_idle:
  "admin_status_changed (bdata (snd (photo_handler2 ADMIN_ID e m s))) = admin_status_changed (bdata s)"
  by (simp add: photo_handler2_def forward_to_admin_def record_forward_def Let_def split: option.splits)

lemma dispatch_idle:
  "admin_status_changed (bdata s) = None \<Longrightarrow> \<not> admin_toggle ADMIN_ID m \<Longrightarrow>
     admin_status_changed (bdata (snd (dispatch ADMIN_ID lower e m s))) = None"
  by (auto simp add: dispatch_def admin_toggle_def available_cmd_def away_cmd_def
      start_cmd_store admin_reply_handler_store handle_message_idle)

lemma dispatch2_idle:
  "admin_status_changed (bdata s) = None \<Longrightarrow> \<not> admin_toggle ADMIN_ID m \<Longrightarrow>
     admin_status_changed (bdata (snd (dispatch2 ADMIN_ID lower e m s))) = None"
  by (auto simp add: dispatch2_def admin_toggle_def available_cmd_def away_cmd_def
      start_cmd2_store admin_reply_handler2_store handle_message2_idle photo_handler2_idle)

lemma run_idle:
  "admin_status_changed (bdata s) = None \<Longrightarrow> list_all (\<lambda>ev. \<not> admin_toggle ADMIN_ID (snd ev)) evs \<Longrightarrow>
     admin_status_changed (bdata (run ADMIN_ID lower evs s)) = None"
proof (induction evs arbitrary: s)
  case Nil
  then show ?case by simp
next
  case (Cons ev evs)
  obtain e m where ev: "ev = (e, m)" by (cases ev)
  with Cons.prems have "admin_status_changed (bdata (snd (dispatch ADMIN_ID lower e m s))) = None"
    by (simp add: dispatch_idle)
  with Cons.IH Cons.prems(2) ev show ?case by simp
qed

lemma run2_idle:
  "admin_status_changed (bdata s) = None \<Longrightarrow> list_all (\<lambda>ev. \<not> admin_toggle ADMIN_ID (snd ev)) evs \<Longrightarrow>
     admin_status_changed (bdata (run2 ADMIN_ID lower evs s)) = None"
proof (induction evs arbitrary: s)
  case Nil
  then show ?case by simp
next
  case (Cons ev evs)
  obtain e m where ev: "ev = (e, m)" by (cases ev)
  with Cons.prems have "admin_status_changed (bdata (snd (dispatch2 ADMIN_ID lower e m s))) = None"
    by (simp add: dispatch2_idle)
  with Cons.IH Cons.prems(2) ev show ?case by simp
qed








lemma available_cmd_users: "udata (snd (available_cmd ADMIN_ID m s)) = udata s"
  by (simp add: available_cmd_def)

lemma away_cmd_users: "udata (snd (away_cmd ADMIN_ID m s)) = udata s"
  by (simp add: away_cmd_def)

lemma photo_handler2_users: "udata (snd (photo_handler2 ADMIN_ID e m s)) = udata s"
  by (simp add: photo_handler2_def Let_def split: prod.splits)

lemma handle_message_latch:
  "busy_shown (udata s u) = Some True \<Longrightarrow>
     busy_shown (udata (snd (handle_message ADMIN_ID lower e m s)) u) = Some True"
  by (auto simp add: handle_message_def user_spam_def Let_def split: prod.splits sum.splits)

lemma handle_message2_latch:
  "busy_shown (udata s u) = Some True \<Longrightarrow>
     busy_shown (udata (snd (handle_message2 ADMIN_ID lower e m s)) u) = Some True"
  by (auto simp add: handle_message2_def user_spam2_def Let_def split: prod.splits sum.splits)

lemma dispatch_latch:
  "busy_shown (udata s u) = Some True \<Longrightarrow>
     busy_shown (udata (snd (dispatch ADMIN_ID lower e m s)) u) = Some True"
  by (simp add: dispatch_def available_cmd_users away_cmd_users admin_reply_handler_store
      start_cmd_store handle_message_latch)

lemma dispatch2_latch:
  "busy_shown (udata s u) = Some True \<Longrightarrow>
     busy_shown (udata (snd (dispatch2 ADMIN_ID lower e m s)) u) = Some True"
  by (simp add: dispatch2_def available_cmd_users away_cmd_users admin_reply_handler2_store
      start_cmd2_store photo_handler2_users handle_message2_latch)

lemma run_latch:
  "busy_shown (udata s u) = Some True \<Longrightarrow>
     busy_shown (udata (run ADMIN_ID lower evs s) u) = Some True"
proof (induction evs arbitrary: s)
  case Nil
  then show ?case by simp
next
  case (Cons ev evs)
  obtain e m where ev: "ev = (e, m)" by (cases ev)
  from Cons.prems have "busy_shown (udata (snd (dispatch ADMIN_ID lower e m s)) u) = Some True"
    by (rule dispatch_latch)
  then show ?case using Cons.IH ev by simp
qed

lemma run2_latch:
  "busy_shown (udata s u) = Some True \<Longrightarrow>
     busy_shown (udata (run2 ADMIN_ID lower evs s) u) = Some True"
proof (induction evs arbitrary: s)
  case Nil
  then show ?case by simp
next
  case (Cons ev evs)
  obtain e m where ev: "ev = (e, m)" by (cases ev)
  from Cons.prems have "busy_shown (udata (snd (dispatch2 ADMIN_ID lower e m s)) u) = Some True"
    by (rule dispatch2_latch)
  then show ?case using Cons.IH ev by simp
qed

lemma run_append: "run ADMIN_ID lower (evs @ evs') s = run ADMIN_ID lower evs' (run ADMIN_ID lower evs s)"
  by (induction evs arbitrary: s) auto

lemma run2_append: "run2 ADMIN_ID lower (evs @ evs') s = run2 ADMIN_ID lower evs' (run2 ADMIN_ID lower evs s)"
  by (induction evs arbitrary: s) auto

subsection \<open>Where \<^verbatim>\<open>main()\<close> sends an update\<close>

lemma dispatch_plain:
  "is_plain_text m \<Longrightarrow> dispatch ADMIN_ID lower e m s = handle_message ADMIN_ID lower e m s"
  by (auto simp add: dispatch_def is_plain_text_def command_handler_def filters_COMMAND_def)

lemma dispatch2_plain:
  "is_plain_text m \<Longrightarrow> dispatch2 ADMIN_ID lower e m s = handle_message2 ADMIN_ID lower e m s"
  by (auto simp add: dispatch2_def is_plain_text_def command_handler_def filters_COMMAND_def)

lemma dispatch_available:
  "command a = Some ''available'' \<Longrightarrow>
     dispatch ADMIN_ID lower e a s = available_cmd ADMIN_ID a s
     \<and> dispatch2 ADMIN_ID lower e a s = available_cmd ADMIN_ID a s"
  by (simp add: dispatch_def dispatch2_def command_handler_def)

lemma dispatch_away:
  "command a = Some ''away'' \<Longrightarrow>
     dispatch ADMIN_ID lower e a s = away_cmd ADMIN_ID a s
     \<and> dispatch2 ADMIN_ID lower e a s = away_cmd ADMIN_ID a s"
  by (simp add: dispatch_def dispatch2_def command_handler_def)

subsection \<open>What \<^verbatim>\<open>handle_message\<close> does with an accepted message\<close>

lemma handle_message_notice:
  assumes "\<not> now e - get_last_time (udata s (effective_user_id m)) < 3 / 2"
    and "admin_status_changed (bdata s) = Some tag"
    and "tag = ''available'' \<or> tag = ''away''"
  shows "handle_message ADMIN_ID lower e m s =
     ([ForwardMessage ADMIN_ID (effective_chat_id m) (message_id m),
       SendText (effective_chat_id m) typing_text,
       SendText (effective_chat_id m)
         (if tag = ''available'' then available_notice else away_notice)],
      \<lparr>bdata = (snd (forward_to_admin ADMIN_ID e m (bdata s)))\<lparr>admin_status_changed := None\<rparr>,
       udata = (udata s)(effective_user_id m :=
          (udata s (effective_user_id m))\<lparr>last_time := Some (now e)\<rparr>)\<rparr>)"
  using assms
  by (auto simp add: handle_message_def user_spam_def forward_to_admin_def record_forward_def
      consume_pending_notice_def type_animation_def Let_def split: option.splits)

lemma handle_message2_notice:
  assumes "\<not> now e - get_last_time (udata s (effective_user_id m)) < cooldown2"
    and "lower (take 500 (msg_text m)) \<notin> set greetings"
    and "admin_status_changed (bdata s) = Some tag"
    and "tag = ''available'' \<or> tag = ''away''"
  shows "handle_message2 ADMIN_ID lower e m s =
     ([ForwardMessage ADMIN_ID (effective_chat_id m) (message_id m),
       SendText (effective_chat_id m) typing_text,
       SendText (effective_chat_id m)
         (if tag = ''available'' then available_notice2 else busy_text2)],
      \<lparr>bdata = (snd (forward_to_admin ADMIN_ID e m (bdata s)))\<lparr>admin_status_changed := None\<rparr>,
       udata = (udata s)(effective_user_id m :=
          (udata s (effective_user_id m))\<lparr>last_time := Some (now e)\<rparr>)\<rparr>)"
  using assms
  by (auto simp add: handle_message2_def user_spam2_def forward_to_admin_def record_forward_def
      consume_pending_notice_def type_animation_def Let_def split: option.splits)

lemma handle_message_no_notice:
  assumes "\<not> now e - get_last_time (udata s (effective_user_id m)) < 3 / 2"
    and "admin_status_changed (bdata s) = None"
  shows "\<exists>t. safe_ask_gemini lower e = Inr t
     \<and> handle_message ADMIN_ID lower e m s =
        ([ForwardMessage ADMIN_ID (effective_chat_id m) (message_id m),
          SendText (effective_chat_id m) typing_text,
          SendText (effective_chat_id m) t],
         \<lparr>bdata = snd (forward_to_admin ADMIN_ID e m (bdata s)),
          udata = (udata s)(effective_user_id m :=
             (udata s (effective_user_id m))\<lparr>last_time := Some (now e),
                                               busy_shown := Some True\<rparr>)\<rparr>)"
  using assms safe_ask_gemini_total [of lower e]
  by (auto simp add: handle_message_def user_spam_def forward_to_admin_def record_forward_def
      consume_pending_notice_def type_animation_def Let_def split: option.splits)

lemma handle_message2_no_notice:
  assumes "\<not> now e - get_last_time (udata s (effective_user_id m)) < cooldown2"
    and "lower (take 500 (msg_text m)) \<notin> set greetings"
    and "admin_status_changed (bdata s) = None"
  shows "handle_message2 ADMIN_ID lower e m s =
        ([ForwardMessage ADMIN_ID (effective_chat_id m) (message_id m),
          SendText (effective_chat_id m) typing_text,
          SendText (effective_chat_id m)
            (if admin_available (bdata s) = Some True then message_sent
             else if busy_shown (udata s (effective_user_id m)) \<noteq> Some True then busy_text2
             else message_sent)],
         \<lparr>bdata = snd (forward_to_admin ADMIN_ID e m (bdata s)),
          udata = (udata s)(effective_user_id m :=
             (udata s (effective_user_id m))\<lparr>last_time := Some (now e),
                                               busy_shown := Some True\<rparr>)\<rparr>)"
  using assms
  by (auto simp add: handle_message2_def user_spam2_def forward_to_admin_def record_forward_def
      consume_pending_notice_def type_animation_def Let_def split: option.splits)

subsection \<open>C1: the pending status notice is seen once\<close>

lemma forward_keeps_status:
  "admin_status_changed (snd (forward_to_admin ADMIN_ID e m bd)) = admin_status_changed bd"
  by (simp add: forward_to_admin_def record_forward_def split: option.splits)

text \<open>
  C1: the admin's \<^verbatim>\<open>/available\<close> (resp. \<^verbatim>\<open>/away\<close>) has just been handled. The first
  plain text message that passes the gate (in the second script: and is no greeting)
  consumes the pending notice: it is forwarded, and answered with the filler and the
  available (resp. away) notice, and \<^verbatim>\<open>admin_status_changed\<close> is \<^verbatim>\<open>None\<close> afterwards.
  From a state where the notice is consumed, after any run of updates without a further
  \<^verbatim>\<open>/available\<close> or \<^verbatim>\<open>/away\<close> of the admin, a plain text message that passes the gate
  gets no notice: it takes the branch after the notice test, which sets
  \<^verbatim>\<open>busy_shown\<close> and sends the synthesized reply (resp. the fixed reply of the second
  script), and \<^verbatim>\<open>admin_status_changed\<close> stays \<^verbatim>\<open>None\<close>.
\<close>

theorem C1_pending_notice_once:
  assumes "effective_user_id a = ADMIN_ID" and "is_plain_text m"
  shows
    "(command a = Some ''available''
        \<and> \<not> now e - get_last_time (udata s (effective_user_id m)) < 3 / 2 \<longrightarrow>
        fst (dispatch ADMIN_ID lower e m (snd (dispatch ADMIN_ID lower e0 a s)))
          = [ForwardMessage ADMIN_ID (effective_chat_id m) (message_id m),
             SendText (effective_chat_id m) typing_text,
             SendText (effective_chat_id m) available_notice]
        \<and> admin_status_changed
            (bdata (snd (dispatch ADMIN_ID lower e m (snd (dispatch ADMIN_ID lower e0 a s)))))
          = None)
     \<and> (command a = Some ''away''
        \<and> \<not> now e - get_last_time (udata s (effective_user_id m)) < 3 / 2 \<longrightarrow>
        fst (dispatch ADMIN_ID lower e m (snd (dispatch ADMIN_ID lower e0 a s)))
          = [ForwardMessage ADMIN_ID (effective_chat_id m) (message_id m),
             SendText (effective_chat_id m) typing_text,
             SendText (effective_chat_id m) away_notice]
        \<and> admin_status_changed
            (bdata (snd (dispatch ADMIN_ID lower e m (snd (dispatch ADMIN_ID lower e0 a s)))))
          = None)
     \<and> (admin_status_changed (bdata s') = None
        \<and> list_all (\<lambda>ev. \<not> admin_toggle ADMIN_ID (snd ev)) evs
        \<and> \<not> now e - get_last_time (udata (run ADMIN_ID lower evs s') (effective_user_id m))
             < 3 / 2 \<longrightarrow>
        (\<exists>t. safe_ask_gemini lower e = Inr t
           \<and> fst (dispatch ADMIN_ID lower e m (run ADMIN_ID lower evs s'))
             = [ForwardMessage ADMIN_ID (effective_chat_id m) (message_id m),
                SendText (effective_chat_id m) typing_text,
                SendText (effective_chat_id m) t])
        \<and> busy_shown (udata (snd (dispatch ADMIN_ID lower e m (run ADMIN_ID lower evs s')))
             (effective_user_id m)) = Some True
        \<and> admin_status_changed
            (bdata (snd (dispatch ADMIN_ID lower e m (run ADMIN_ID lower evs s')))) = None)
     \<and> (command a = Some ''available''
        \<and> \<not> now e - get_last_time (udata s (effective_user_id m)) < cooldown2
        \<and> lower (take 500 (msg_text m)) \<notin> set greetings \<longrightarrow>
        fst (dispatch2 ADMIN_ID lower e m (snd (dispatch2 ADMIN_ID lower e0 a s)))
          = [ForwardMessage ADMIN_ID (effective_chat_id m) (message_id m),
             SendText (effective_chat_id m) typing_text,
             SendText (effective_chat_id m) available_notice2]
        \<and> admin_status_changed
            (bdata (snd (dispatch2 ADMIN_ID lower e m (snd (dispatch2 ADMIN_ID lower e0 a s)))))
          = None)
     \<and> (command a = Some ''away''
        \<and> \<not> now e - get_last_time (udata s (effective_user_id m)) < cooldown2
        \<and> lower (take 500 (msg_text m)) \<notin> set greetings \<longrightarrow>
        fst (dispatch2 ADMIN_ID lower e m (snd (dispatch2 ADMIN_ID lower e0 a s)))
          = [ForwardMessage ADMIN_ID (effective_chat_id m) (message_id m),
             SendText (effective_chat_id m) typing_text,
             SendText (effective_chat_id m) busy_text2]
        \<and> admin_status_changed
            (bdata (snd (dispatch2 ADMIN_ID lower e m (snd (dispatch2 ADMIN_ID lower e0 a s)))))
          = None)
     \<and> (admin_status_changed (bdata s') = None
        \<and> list_all (\<lambda>ev. \<not> admin_toggle ADMIN_ID (snd ev)) evs
        \<and> \<not> now e - get_last_time (udata (run2 ADMIN_ID lower evs s') (effective_user_id m))
             < cooldown2
        \<and> lower (take 500 (msg_text m)) \<notin> set greetings \<longrightarrow>
        fst (dispatch2 ADMIN_ID lower e m (run2 ADMIN_ID lower evs s'))
          = [ForwardMessage ADMIN_ID (effective_chat_id m) (message_id m),
             SendText (effective_chat_id m) typing_text,
             SendText (effective_chat_id m)
               (if admin_available (bdata (run2 ADMIN_ID lower evs s')) = Some True
                then message_sent
                else if busy_shown (udata (run2 ADMIN_ID lower evs s') (effective_user_id m))
                        \<noteq> Some True
                then busy_text2 else message_sent)]
        \<and> busy_shown (udata (snd (dispatch2 ADMIN_ID lower e m (run2 ADMIN_ID lower evs s')))
             (effective_user_id m)) = Some True
        \<and> admin_status_changed
            (bdata (snd (dispatch2 ADMIN_ID lower e m (run2 ADMIN_ID lower evs s')))) = None)"
proof -
  let ?u = "effective_user_id m"
  have av: "snd (dispatch ADMIN_ID lower e0 a s) = snd (available_cmd ADMIN_ID a s)
            \<and> snd (dispatch2 ADMIN_ID lower e0 a s) = snd (available_cmd ADMIN_ID a s)"
    if "command a = Some ''available''"
    using that dispatch_available [of a ADMIN_ID lower e0 s] by simp
  have aw: "snd (dispatch ADMIN_ID lower e0 a s) = snd (away_cmd ADMIN_ID a s)
            \<and> snd (dispatch2 ADMIN_ID lower e0 a s) = snd (away_cmd ADMIN_ID a s)"
    if "command a = Some ''away''"
    using that dispatch_away [of a ADMIN_ID lower e0 s] by simp
  have st_av: "admin_status_changed (bdata (snd (available_cmd ADMIN_ID a s))) = Some ''available''"
    using assms(1) by (simp add: available_cmd_def)
  have st_aw: "admin_status_changed (bdata (snd (away_cmd ADMIN_ID a s))) = Some ''away''"
    using assms(1) by (simp add: away_cmd_def)
  have c1: "fst (dispatch ADMIN_ID lower e m (snd (dispatch ADMIN_ID lower e0 a s)))
          = [ForwardMessage ADMIN_ID (effective_chat_id m) (message_id m),
             SendText (effective_chat_id m) typing_text,
             SendText (effective_chat_id m) available_notice]
        \<and> admin_status_changed
            (bdata (snd (dispatch ADMIN_ID lower e m (snd (dispatch ADMIN_ID lower e0 a s)))))
          = None"
    if "command a = Some ''available''"
      "\<not> now e - get_last_time (udata s ?u) < 3 / 2"
    using that av st_av assms(2)
      handle_message_notice [of e "snd (available_cmd ADMIN_ID a s)" m "''available''"
        ADMIN_ID lower]
    by (simp add: dispatch_plain available_cmd_users)
  have c2: "fst (dispatch ADMIN_ID lower e m (snd (dispatch ADMIN_ID lower e0 a s)))
          = [ForwardMessage ADMIN_ID (effective_chat_id m) (message_id m),
             SendText (effective_chat_id m) typing_text,
             SendText (effective_chat_id m) away_notice]
        \<and> admin_status_changed
            (bdata (snd (dispatch ADMIN_ID lower e m (snd (dispatch ADMIN_ID lower e0 a s)))))
          = None"
    if "command a = Some ''away''"
      "\<not> now e - get_last_time (udata s ?u) < 3 / 2"
    using that aw st_aw assms(2)
      handle_message_notice [of e "snd (away_cmd ADMIN_ID a s)" m "''away''" ADMIN_ID lower]
    by (simp add: dispatch_plain away_cmd_users)
  have c3: "(\<exists>t. safe_ask_gemini lower e = Inr t
           \<and> fst (dispatch ADMIN_ID lower e m (run ADMIN_ID lower evs s'))
             = [ForwardMessage ADMIN_ID (effective_chat_id m) (message_id m),
                SendText (effective_chat_id m) typing_text,
                SendText (effective_chat_id m) t])
        \<and> busy_shown (udata (snd (dispatch ADMIN_ID lower e m (run ADMIN_ID lower evs s')))
             ?u) = Some True
        \<and> admin_status_changed
            (bdata (snd (dispatch ADMIN_ID lower e m (run ADMIN_ID lower evs s')))) = None"
    if "admin_status_changed (bdata s') = None"
      "list_all (\<lambda>ev. \<not> admin_toggle ADMIN_ID (snd ev)) evs"
      "\<not> now e - get_last_time (udata (run ADMIN_ID lower evs s') ?u) < 3 / 2"
  proof -
    have idle: "admin_status_changed (bdata (run ADMIN_ID lower evs s')) = None"
      using that(1,2) by (rule run_idle)
    from handle_message_no_notice [OF that(3) idle, of lower ADMIN_ID]
    show ?thesis
      using assms(2) idle by (auto simp add: dispatch_plain forward_keeps_status)
  qed
  have c4: "fst (dispatch2 ADMIN_ID lower e m (snd (dispatch2 ADMIN_ID lower e0 a s)))
          = [ForwardMessage ADMIN_ID (effective_chat_id m) (message_id m),
             SendText (effective_chat_id m) typing_text,
             SendText (effective_chat_id m) available_notice2]
        \<and> admin_status_changed
            (bdata (snd (dispatch2 ADMIN_ID lower e m (snd (dispatch2 ADMIN_ID lower e0 a s)))))
          = None"
    if "command a = Some ''available''"
      "\<not> now e - get_last_time (udata s ?u) < cooldown2"
      "lower (take 500 (msg_text m)) \<notin> set greetings"
    using that av st_av assms(2)
      handle_message2_notice [of e "snd (available_cmd ADMIN_ID a s)" m lower "''available''"
        ADMIN_ID]
    by (simp add: dispatch2_plain available_cmd_users)
  have c5: "fst (dispatch2 ADMIN_ID lower e m (snd (dispatch2 ADMIN_ID lower e0 a s)))
          = [ForwardMessage ADMIN_ID (effective_chat_id m) (message_id m),
             SendText (effective_chat_id m) typing_text,
             SendText (effective_chat_id m) busy_text2]
        \<and> admin_status_changed
            (bdata (snd (dispatch2 ADMIN_ID lower e m (snd (dispatch2 ADMIN_ID lower e0 a s)))))
          = None"
    if "command a = Some ''away''"
      "\<not> now e - get_last_time (udata s ?u) < cooldown2"
      "lower (take 500 (msg_text m)) \<notin> set greetings"
    using that aw st_aw assms(2)
      handle_message2_notice [of e "snd (away_cmd ADMIN_ID a s)" m lower "''away''" ADMIN_ID]
    by (simp add: dispatch2_plain away_cmd_users)
  have c6: "fst (dispatch2 ADMIN_ID lower e m (run2 ADMIN_ID lower evs s'))
          = [ForwardMessage ADMIN_ID (effective_chat_id m) (message_id m),
             SendText (effective_chat_id m) typing_text,
             SendText (effective_chat_id m)
               (if admin_available (bdata (run2 ADMIN_ID lower evs s')) = Some True
                then message_sent
                else if busy_shown (udata (run2 ADMIN_ID lower evs s') ?u) \<noteq> Some True
                then busy_text2 else message_sent)]
        \<and> busy_shown (udata (snd (dispatch2 ADMIN_ID lower e m (run2 ADMIN_ID lower evs s')))
             ?u) = Some True
        \<and> admin_status_changed
            (bdata (snd (dispatch2 ADMIN_ID lower e m (run2 ADMIN_ID lower evs s')))) = None"
    if "admin_status_changed (bdata s') = None"
      "list_all (\<lambda>ev. \<not> admin_toggle ADMIN_ID (snd ev)) evs"
      "\<not> now e - get_last_time (udata (run2 ADMIN_ID lower evs s') ?u) < cooldown2"
      "lower (take 500 (msg_text m)) \<notin> set greetings"
  proof -
    have idle: "admin_status_changed (bdata (run2 ADMIN_ID lower evs s')) = None"
      using that(1,2) by (rule run2_idle)
    from that(3,4) idle
      handle_message2_no_notice [where e = e and s = "run2 ADMIN_ID lower evs s'" and m = m
        and lower = lower and ADMIN_ID = ADMIN_ID]
    show ?thesis
      using assms(2) by (simp add: dispatch2_plain forward_keeps_status)
  qed
  from c1 c2 c3 c4 c5 c6 show ?thesis by blast
qed

theorem C1_pending_notice_once_witness:
  "fst (dispatch 1 ascii_lower (env_at 1000 7 (ascii ''ok''))
         (text_message 2 10 (ascii ''Need help''))
         (snd (dispatch 1 ascii_lower (env_at 990 6 (ascii ''ok''))
            (command_message 1 9 ''available'') initial_store)))
     = [ForwardMessage 1 2 10, SendText 2 typing_text, SendText 2 available_notice]
   \<and> fst (dispatch 1 ascii_lower (env_at 1000 7 (ascii ''ok''))
         (text_message 2 10 (ascii ''Need help''))
         (snd (dispatch 1 ascii_lower (env_at 990 6 (ascii ''ok''))
            (command_message 1 9 ''away'') initial_store)))
     = [ForwardMessage 1 2 10, SendText 2 typing_text, SendText 2 away_notice]
   \<and> fst (dispatch 1 ascii_lower (env_at 1020 9 (ascii ''ok''))
         (text_message 3 12 (ascii ''Hello there''))
         (run 1 ascii_lower [(env_at 1010 8 (ascii ''ok''), command_message 2 11 ''away'')]
            (snd (dispatch 1 ascii_lower (env_at 1000 7 (ascii ''ok''))
               (text_message 2 10 (ascii ''Need help''))
               (snd (dispatch 1 ascii_lower (env_at 990 6 (ascii ''ok''))
                  (command_message 1 9 ''available'') initial_store))))))
     = [ForwardMessage 1 3 12, SendText 3 typing_text, SendText 3 (ascii ''ok'')]
   \<and> fst (dispatch2 1 ascii_lower (env_at 1000 7 (ascii ''ok''))
         (text_message 2 10 (ascii ''Need help''))
         (snd (dispatch2 1 ascii_lower (env_at 990 6 (ascii ''ok''))
            (command_message 1 9 ''available'') initial_store)))
     = [ForwardMessage 1 2 10, SendText 2 typing_text, SendText 2 available_notice2]"
  using C1_pending_notice_once [where a = "command_message 1 9 ''available''" and ADMIN_ID = 1
      and m = "text_message 2 10 (ascii ''Need help'')" and s = initial_store
      and e = "env_at 1000 7 (ascii ''ok'')" and e0 = "env_at 990 6 (ascii ''ok'')"
      and lower = ascii_lower and s' = initial_store and evs = "[]"]
    C1_pending_notice_once [where a = "command_message 1 9 ''away''" and ADMIN_ID = 1
      and m = "text_message 2 10 (ascii ''Need help'')" and s = initial_store
      and e = "env_at 1000 7 (ascii ''ok'')" and e0 = "env_at 990 6 (ascii ''ok'')"
      and lower = ascii_lower and s' = initial_store and evs = "[]"]
    C1_pending_notice_once [where a = "command_message 1 9 ''available''" and ADMIN_ID = 1
      and m = "text_message 3 12 (ascii ''Hello there'')" and s = initial_store
      and e = "env_at 1020 9 (ascii ''ok'')" and e0 = "env_at 990 6 (ascii ''ok'')"
      and lower = ascii_lower
      and s' = "snd (dispatch 1 ascii_lower (env_at 1000 7 (ascii ''ok''))
               (text_message 2 10 (ascii ''Need help''))
               (snd (dispatch 1 ascii_lower (env_at 990 6 (ascii ''ok''))
                  (command_message 1 9 ''available'') initial_store)))"
      and evs = "[(env_at 1010 8 (ascii ''ok''), command_message 2 11 ''away'')]"]
  by (simp add: eval_defs dispatch_def dispatch2_def command_handler_def filters_TEXT_def
      filters_REPLY_def filters_COMMAND_def filters_PHOTO_def is_plain_text_def
      admin_toggle_def available_cmd_def away_cmd_def start_cmd_def)

subsection \<open>C2: the cooldown gate\<close>

lemma handle_message_blocked:
  "now e - get_last_time (udata s (effective_user_id m)) < 3 / 2 \<Longrightarrow>
     handle_message ADMIN_ID lower e m s = ([], s)"
  by (simp add: handle_message_def user_spam_def Let_def)

lemma handle_message2_blocked:
  "now e - get_last_time (udata s (effective_user_id m)) < cooldown2 \<Longrightarrow>
     handle_message2 ADMIN_ID lower e m s = ([], s)"
  by (simp add: handle_message2_def user_spam2_def Let_def)

lemma handle_message_accepted_time:
  "\<not> now e - get_last_time (udata s (effective_user_id m)) < 3 / 2 \<Longrightarrow>
     get_last_time (udata (snd (handle_message ADMIN_ID lower e m s)) (effective_user_id m)) = now e"
  by (simp add: handle_message_def user_spam_def Let_def get_last_time_def split: prod.splits sum.splits)

lemma handle_message2_accepted_time:
  "\<not> now e - get_last_time (udata s (effective_user_id m)) < cooldown2 \<Longrightarrow>
     get_last_time (udata (snd (handle_message2 ADMIN_ID lower e m s)) (effective_user_id m)) = now e"
  by (simp add: handle_message2_def user_spam2_def Let_def get_last_time_def split: prod.splits sum.splits)

text \<open>
  C2, as stated, fails for the messages that \<^verbatim>\<open>main()\<close> does not hand to
  \<^verbatim>\<open>handle_message\<close>: user 2 sends a text at 1000 s, which is accepted and sets
  \<^verbatim>\<open>last_time\<close>; a tenth of a second later the same user's \<^verbatim>\<open>/start\<close> is answered
  (\<^verbatim>\<open>main.py\<close>), and the same user's photo is forwarded and answered (second script).
\<close>

theorem C2_ungated_messages_counterexample:
  "get_last_time (udata (snd (dispatch 1 ascii_lower (env_at 1000 7 (ascii ''ok''))
       (text_message 2 10 (ascii ''Need help'')) initial_store)) 2) = 1000
   \<and> fst (dispatch 1 ascii_lower (env_at (10001 / 10) 8 (ascii ''ok''))
        (command_message 2 11 ''start'')
        (snd (dispatch 1 ascii_lower (env_at 1000 7 (ascii ''ok''))
           (text_message 2 10 (ascii ''Need help'')) initial_store)))
      = [SendText 2 typing_text, SendText 2 start_text]
   \<and> get_last_time (udata (snd (dispatch2 1 ascii_lower (env_at 1000 7 (ascii ''ok''))
       (text_message 2 10 (ascii ''Need help'')) initial_store)) 2) = 1000
   \<and> fst (dispatch2 1 ascii_lower (env_at (10001 / 10) 8 (ascii ''ok''))
        (photo_message 2 11)
        (snd (dispatch2 1 ascii_lower (env_at 1000 7 (ascii ''ok''))
           (text_message 2 10 (ascii ''Need help'')) initial_store)))
      = [ForwardMessage 1 2 11, SendText 2 message_sent]"
  by (simp add: eval_defs dispatch_def dispatch2_def command_handler_def filters_TEXT_def
      filters_REPLY_def filters_COMMAND_def filters_PHOTO_def start_cmd_def photo_handler2_def)

text \<open>
  C2, amended: when the clock is less than the cooldown (1.5 s in \<^verbatim>\<open>main.py\<close>, 1.2 s in
  the second script) past the user's \<^verbatim>\<open>last_time\<close>, the gate returns true and leaves
  \<^verbatim>\<open>last_time\<close> as it was, and a plain text message (text, no bot command, no reply,
  no photo) is dropped: no transport call, no change of state. Otherwise the gate sets
  \<^verbatim>\<open>last_time\<close> to the clock and returns false. So a plain text message of a user that
  comes less than the cooldown after an accepted one of the same user is dropped.
\<close>

theorem C2_cooldown_gate:
  "(t - get_last_time ud < 3 / 2 \<longrightarrow> user_spam t ud = (True, ud))
   \<and> (\<not> t - get_last_time ud < 3 / 2 \<longrightarrow> user_spam t ud = (False, ud\<lparr>last_time := Some t\<rparr>))
   \<and> (now e - get_last_time (udata s (effective_user_id m)) < 3 / 2 \<longrightarrow>
         handle_message ADMIN_ID lower e m s = ([], s))
   \<and> (\<not> now e - get_last_time (udata s (effective_user_id m)) < 3 / 2
        \<and> effective_user_id m' = effective_user_id m \<and> now e' - now e < 3 / 2 \<longrightarrow>
         handle_message ADMIN_ID lower e' m' (snd (handle_message ADMIN_ID lower e m s))
           = ([], snd (handle_message ADMIN_ID lower e m s)))
   \<and> (is_plain_text m \<and> now e - get_last_time (udata s (effective_user_id m)) < 3 / 2 \<longrightarrow>
         dispatch ADMIN_ID lower e m s = ([], s))
   \<and> (is_plain_text m \<and> is_plain_text m'
        \<and> \<not> now e - get_last_time (udata s (effective_user_id m)) < 3 / 2
        \<and> effective_user_id m' = effective_user_id m \<and> now e' - now e < 3 / 2 \<longrightarrow>
         get_last_time (udata (snd (dispatch ADMIN_ID lower e m s)) (effective_user_id m))
           = now e
         \<and> dispatch ADMIN_ID lower e' m' (snd (dispatch ADMIN_ID lower e m s))
           = ([], snd (dispatch ADMIN_ID lower e m s)))
   \<and> (t - get_last_time ud < cooldown2 \<longrightarrow> user_spam2 t ud = (True, ud))
   \<and> (\<not> t - get_last_time ud < cooldown2 \<longrightarrow>
         user_spam2 t ud = (False, ud\<lparr>last_time := Some t\<rparr>))
   \<and> (now e - get_last_time (udata s (effective_user_id m)) < cooldown2 \<longrightarrow>
         handle_message2 ADMIN_ID lower e m s = ([], s))
   \<and> (\<not> now e - get_last_time (udata s (effective_user_id m)) < cooldown2
        \<and> effective_user_id m' = effective_user_id m \<and> now e' - now e < cooldown2 \<longrightarrow>
         handle_message2 ADMIN_ID lower e' m' (snd (handle_message2 ADMIN_ID lower e m s))
           = ([], snd (handle_message2 ADMIN_ID lower e m s)))
   \<and> (is_plain_text m \<and> now e - get_last_time (udata s (effective_user_id m)) < cooldown2 \<longrightarrow>
         dispatch2 ADMIN_ID lower e m s = ([], s))
   \<and> (is_plain_text m \<and> is_plain_text m'
        \<and> \<not> now e - get_last_time (udata s (effective_user_id m)) < cooldown2
        \<and> effective_user_id m' = effective_user_id m \<and> now e' - now e < cooldown2 \<longrightarrow>
         get_last_time (udata (snd (dispatch2 ADMIN_ID lower e m s)) (effective_user_id m))
           = now e
         \<and> dispatch2 ADMIN_ID lower e' m' (snd (dispatch2 ADMIN_ID lower e m s))
           = ([], snd (dispatch2 ADMIN_ID lower e m s)))"
proof -
  have g1: "t - get_last_time ud < 3 / 2 \<longrightarrow> user_spam t ud = (True, ud)"
    and g2: "\<not> t - get_last_time ud < 3 / 2 \<longrightarrow> user_spam t ud = (False, ud\<lparr>last_time := Some t\<rparr>)"
    and g3: "t - get_last_time ud < cooldown2 \<longrightarrow> user_spam2 t ud = (True, ud)"
    and g4: "\<not> t - get_last_time ud < cooldown2 \<longrightarrow>
         user_spam2 t ud = (False, ud\<lparr>last_time := Some t\<rparr>)"
    by (simp_all add: user_spam_def user_spam2_def Let_def)
  have p1: "handle_message ADMIN_ID lower e' m' (snd (handle_message ADMIN_ID lower e m s))
           = ([], snd (handle_message ADMIN_ID lower e m s))"
    if "\<not> now e - get_last_time (udata s (effective_user_id m)) < 3 / 2"
      "effective_user_id m' = effective_user_id m" "now e' - now e < 3 / 2"
    using that handle_message_accepted_time [of e s m ADMIN_ID lower]
    by (intro handle_message_blocked) simp
  have p2: "handle_message2 ADMIN_ID lower e' m' (snd (handle_message2 ADMIN_ID lower e m s))
           = ([], snd (handle_message2 ADMIN_ID lower e m s))"
    if "\<not> now e - get_last_time (udata s (effective_user_id m)) < cooldown2"
      "effective_user_id m' = effective_user_id m" "now e' - now e < cooldown2"
    using that handle_message2_accepted_time [of e s m ADMIN_ID lower]
    by (intro handle_message2_blocked) simp
  have d1: "dispatch ADMIN_ID lower e m s = ([], s)"
    if "is_plain_text m" "now e - get_last_time (udata s (effective_user_id m)) < 3 / 2"
    using that by (simp add: dispatch_plain handle_message_blocked)
  have d2: "dispatch2 ADMIN_ID lower e m s = ([], s)"
    if "is_plain_text m" "now e - get_last_time (udata s (effective_user_id m)) < cooldown2"
    using that by (simp add: dispatch2_plain handle_message2_blocked)
  have q1: "get_last_time (udata (snd (dispatch ADMIN_ID lower e m s)) (effective_user_id m))
           = now e
         \<and> dispatch ADMIN_ID lower e' m' (snd (dispatch ADMIN_ID lower e m s))
           = ([], snd (dispatch ADMIN_ID lower e m s))"
    if "is_plain_text m" "is_plain_text m'"
      "\<not> now e - get_last_time (udata s (effective_user_id m)) < 3 / 2"
      "effective_user_id m' = effective_user_id m" "now e' - now e < 3 / 2"
    using that p1 handle_message_accepted_time [of e s m ADMIN_ID lower]
    by (simp add: dispatch_plain)
  have q2: "get_last_time (udata (snd (dispatch2 ADMIN_ID lower e m s)) (effective_user_id m))
           = now e
         \<and> dispatch2 ADMIN_ID lower e' m' (snd (dispatch2 ADMIN_ID lower e m s))
           = ([], snd (dispatch2 ADMIN_ID lower e m s))"
    if "is_plain_text m" "is_plain_text m'"
      "\<not> now e - get_last_time (udata s (effective_user_id m)) < cooldown2"
      "effective_user_id m' = effective_user_id m" "now e' - now e < cooldown2"
    using that p2 handle_message2_accepted_time [of e s m ADMIN_ID lower]
    by (simp add: dispatch2_plain)
  show ?thesis
    using g1 g2 g3 g4 p1 p2 d1 d2 q1 q2 handle_message_blocked [of e s m ADMIN_ID lower]
      handle_message2_blocked [of e s m ADMIN_ID lower]
    by blast
qed

theorem C2_cooldown_gate_witness:
  "fst (dispatch 1 ascii_lower (env_at 1000 7 (ascii ''ok''))
      (text_message 2 10 (ascii ''Need help'')) initial_store) \<noteq> []
  \<and> fst (dispatch 1 ascii_lower (env_at 1001 8 (ascii ''ok'')) (text_message 2 11 (ascii ''again''))
      (snd (dispatch 1 ascii_lower (env_at 1000 7 (ascii ''ok''))
         (text_message 2 10 (ascii ''Need help'')) initial_store)))
     = []
  \<and> get_last_time (udata (snd (dispatch 1 ascii_lower (env_at 1001 8 (ascii ''ok''))
      (text_message 2 11 (ascii ''again''))
      (snd (dispatch 1 ascii_lower (env_at 1000 7 (ascii ''ok''))
         (text_message 2 10 (ascii ''Need help'')) initial_store)))) 2) = 1000
  \<and> fst (dispatch2 1 ascii_lower (env_at (10012 / 10) 8 (ascii ''ok''))
      (text_message 2 11 (ascii ''again''))
      (snd (dispatch2 1 ascii_lower (env_at 1000 7 (ascii ''ok''))
         (text_message 2 10 (ascii ''Need help'')) initial_store)))
     \<noteq> []
  \<and> fst (dispatch2 1 ascii_lower (env_at (10011 / 10) 8 (ascii ''ok''))
      (text_message 2 11 (ascii ''again''))
      (snd (dispatch2 1 ascii_lower (env_at 1000 7 (ascii ''ok''))
         (text_message 2 10 (ascii ''Need help'')) initial_store)))
     = []"
  using C2_cooldown_gate [where t = 1000 and ud = "udata initial_store 2"
      and e = "env_at 1000 7 (ascii ''ok'')"
      and m = "text_message 2 10 (ascii ''Need help'')" and s = initial_store and ADMIN_ID = 1
      and lower = ascii_lower
      and e' = "env_at 1001 8 (ascii ''ok'')" and m' = "text_message 2 11 (ascii ''again'')"]
    C2_cooldown_gate [where t = 1000 and ud = "udata initial_store 2"
      and e = "env_at 1000 7 (ascii ''ok'')"
      and m = "text_message 2 10 (ascii ''Need help'')" and s = initial_store and ADMIN_ID = 1
      and lower = ascii_lower
      and e' = "env_at (10011 / 10) 8 (ascii ''ok'')"
      and m' = "text_message 2 11 (ascii ''again'')"]
  by (simp add: eval_defs dispatch_def dispatch2_def command_handler_def filters_TEXT_def
      filters_REPLY_def filters_COMMAND_def filters_PHOTO_def is_plain_text_def)

subsection \<open>C3: the correlation map\<close>






subsection \<open>C4: the admin commands reject everyone else\<close>

text \<open>
  C4: when the sender is not the admin, \<^verbatim>\<open>/available\<close> and \<^verbatim>\<open>/away\<close> send the
  rejection text to the sender's chat and leave the whole state, so \<^verbatim>\<open>admin_available\<close>
  and \<^verbatim>\<open>admin_status_changed\<close>, as it was; the same holds when the command comes in
  through the dispatch of either script.
\<close>

theorem C4_non_admin_rejected:
  assumes "effective_user_id m \<noteq> ADMIN_ID"
  shows "available_cmd ADMIN_ID m s = ([SendText (effective_chat_id m) not_allowed], s)
       \<and> away_cmd ADMIN_ID m s = ([SendText (effective_chat_id m) not_allowed], s)
       \<and> (command m = Some ''available'' \<or> command m = Some ''away'' \<longrightarrow>
            dispatch ADMIN_ID lower e m s = ([SendText (effective_chat_id m) not_allowed], s)
          \<and> dispatch2 ADMIN_ID lower e m s = ([SendText (effective_chat_id m) not_allowed], s))"
  using assms
  by (auto simp add: available_cmd_def away_cmd_def dispatch_def dispatch2_def
      command_handler_def)

theorem C4_non_admin_rejected_witness:
  "dispatch 1 ascii_lower (env_at 100 7 (ascii ''ok'')) (command_message 2 10 ''away'')
       initial_store
     = ([SendText 2 not_allowed], initial_store)
   \<and> available_cmd 1 (command_message 2 10 ''available'') initial_store
     = ([SendText 2 not_allowed], initial_store)"
  using C4_non_admin_rejected [of "command_message 2 10 ''away''" 1 initial_store ascii_lower
      "env_at 100 7 (ascii ''ok'')"]
    C4_non_admin_rejected [of "command_message 2 10 ''available''" 1 initial_store ascii_lower
      "env_at 100 7 (ascii ''ok'')"]
  by (simp add: command_message_def text_message_def)

subsection \<open>C5: the away notice comes before the first-time busy text\<close>

text \<open>
  C5, as stated, fails when the user's first-ever text is a reply to another message: the
  reply handler takes it and returns, so nothing is forwarded or sent and the away notice
  stays pending. It also fails in its second part when the forward call raises: the
  exception is swallowed and no correlation is recorded.
\<close>

theorem C5_reply_text_counterexample:
  "dispatch 1 ascii_lower (env_at 1000 7 (ascii ''ok''))
      (reply_message 2 10 (ascii ''Need help'') 5)
      (snd (dispatch 1 ascii_lower (env_at 990 6 (ascii ''ok''))
         (command_message 1 9 ''away'') initial_store))
    = ([], snd (dispatch 1 ascii_lower (env_at 990 6 (ascii ''ok''))
         (command_message 1 9 ''away'') initial_store))
   \<and> admin_status_changed (bdata (snd (dispatch 1 ascii_lower (env_at 990 6 (ascii ''ok''))
         (command_message 1 9 ''away'') initial_store))) = Some ''away''
   \<and> forwarded_map (bdata (snd (dispatch 1 ascii_lower
        ((env_at 1000 7 (ascii ''ok''))\<lparr>fwd := None\<rparr>)
        (text_message 2 10 (ascii ''Need help''))
        (snd (dispatch 1 ascii_lower (env_at 990 6 (ascii ''ok''))
           (command_message 1 9 ''away'') initial_store)))))
      = Map.empty"
  by (simp add: eval_defs dispatch_def command_handler_def filters_TEXT_def filters_REPLY_def
      filters_COMMAND_def away_cmd_def admin_reply_handler_def)

text \<open>
  C5, amended: the admin's \<^verbatim>\<open>/away\<close> has just been handled, and a user with no
  \<^verbatim>\<open>user_data\<close> yet sends a plain text message (no reply to another message, no
  command; in the second script no greeting), the clock being at least the cooldown past
  the epoch, as it is for every first message. Then the router forwards the message to
  the admin, records the id of the forwarded message under the user's chat when the
  forward call returns, sends the filler and then the away notice, sets
  \<^verbatim>\<open>admin_status_changed\<close> to \<^verbatim>\<open>None\<close> and stops there: \<^verbatim>\<open>busy_shown\<close> stays unset,
  so the first-time busy branch was not taken.
\<close>

theorem C5_away_notice_first:
  assumes "effective_user_id a = ADMIN_ID" and "command a = Some ''away''"
    and "is_plain_text m"
    and "last_time (udata s (effective_user_id m)) = None"
    and "busy_shown (udata s (effective_user_id m)) = None"
  shows "(3 / 2 \<le> now e \<longrightarrow>
          dispatch ADMIN_ID lower e m (snd (dispatch ADMIN_ID lower e0 a s))
          = ([ForwardMessage ADMIN_ID (effective_chat_id m) (message_id m),
              SendText (effective_chat_id m) typing_text,
              SendText (effective_chat_id m) away_notice],
             \<lparr>bdata = (bdata s)\<lparr>admin_available := Some False, admin_status_changed := None,
                  forwarded_map :=
                    (case fwd e of
                       None \<Rightarrow> forwarded_map (bdata s)
                     | Some fid \<Rightarrow> (forwarded_map (bdata s))(fid \<mapsto> effective_chat_id m))\<rparr>,
              udata = (udata s)(effective_user_id m :=
                  \<lparr>last_time = Some (now e), busy_shown = None\<rparr>)\<rparr>))
       \<and> (cooldown2 \<le> now e \<and> lower (take 500 (msg_text m)) \<notin> set greetings \<longrightarrow>
          dispatch2 ADMIN_ID lower e m (snd (dispatch2 ADMIN_ID lower e0 a s))
          = ([ForwardMessage ADMIN_ID (effective_chat_id m) (message_id m),
              SendText (effective_chat_id m) typing_text,
              SendText (effective_chat_id m) busy_text2],
             \<lparr>bdata = (bdata s)\<lparr>admin_available := Some False, admin_status_changed := None,
                  forwarded_map :=
                    (case fwd e of
                       None \<Rightarrow> forwarded_map (bdata s)
                     | Some fid \<Rightarrow> (forwarded_map (bdata s))(fid \<mapsto> effective_chat_id m))\<rparr>,
              udata = (udata s)(effective_user_id m :=
                  \<lparr>last_time = Some (now e), busy_shown = None\<rparr>)\<rparr>))"
proof -
  have ud: "udata s (effective_user_id m) = \<lparr>last_time = None, busy_shown = None\<rparr>"
    using assms(4,5) by (cases "udata s (effective_user_id m)") simp
  have aw: "snd (dispatch ADMIN_ID lower e0 a s) = snd (away_cmd ADMIN_ID a s)"
    "snd (dispatch2 ADMIN_ID lower e0 a s) = snd (away_cmd ADMIN_ID a s)"
    using assms(2) dispatch_away [of a ADMIN_ID lower e0 s] by simp_all
  show ?thesis
    unfolding aw dispatch_plain [OF assms(3)] dispatch2_plain [OF assms(3)]
    using assms(1) ud
    by (auto simp add: handle_message_def handle_message2_def away_cmd_def user_spam_def
        user_spam2_def get_last_time_def forward_to_admin_def record_forward_def
        consume_pending_notice_def type_animation_def Let_def split: option.splits)
qed

theorem C5_away_notice_first_witness:
  "dispatch 1 ascii_lower (env_at 1000 7 (ascii ''ok''))
      (text_message 2 10 (ascii ''Need help''))
      (snd (dispatch 1 ascii_lower (env_at 990 6 (ascii ''ok''))
         (command_message 1 9 ''away'') initial_store))
    = ([ForwardMessage 1 2 10, SendText 2 typing_text, SendText 2 away_notice],
       \<lparr>bdata = \<lparr>admin_available = Some False, admin_status_changed = None,
                  forwarded_map = [7 \<mapsto> 2]\<rparr>,
        udata = (udata initial_store)(2 := \<lparr>last_time = Some 1000, busy_shown = None\<rparr>)\<rparr>)
   \<and> fst (dispatch2 1 ascii_lower (env_at 1000 7 (ascii ''ok''))
      (text_message 2 10 (ascii ''Need help''))
      (snd (dispatch2 1 ascii_lower (env_at 990 6 (ascii ''ok''))
         (command_message 1 9 ''away'') initial_store)))
    = [ForwardMessage 1 2 10, SendText 2 typing_text, SendText 2 busy_text2]"
  using C5_away_notice_first [of "command_message 1 9 ''away''" 1
      "text_message 2 10 (ascii ''Need help'')" initial_store "env_at 1000 7 (ascii ''ok'')"
      ascii_lower "env_at 990 6 (ascii ''ok'')"]
  by (simp add: eval_defs is_plain_text_def filters_TEXT_def filters_REPLY_def
      filters_COMMAND_def filters_PHOTO_def)

subsection \<open>C6: \<^verbatim>\<open>busy_shown\<close> is a latch\<close>

text \<open>
  C6: for every user, once \<^verbatim>\<open>busy_shown\<close> is true after some updates, it is true after
  any further updates, in both scripts: no handler resets it, so it goes from false to
  true at most once.
\<close>

theorem C6_busy_latch:
  "(busy_shown (udata (run ADMIN_ID lower evs s) u) = Some True \<longrightarrow>
      busy_shown (udata (run ADMIN_ID lower (evs @ evs') s) u) = Some True)
   \<and> (busy_shown (udata (run2 ADMIN_ID lower evs s) u) = Some True \<longrightarrow>
      busy_shown (udata (run2 ADMIN_ID lower (evs @ evs') s) u) = Some True)"
  by (simp add: run_append run2_append run_latch run2_latch)


theorem C6_busy_latch_witness:
  "busy_shown (udata (run2 1 ascii_lower
       [(env_at 1000 7 (ascii ''ok''), text_message 2 10 (ascii ''Need help''))]
       initial_store) 2) = Some True
   \<and> busy_shown (udata (run2 1 ascii_lower
       ([(env_at 1000 7 (ascii ''ok''), text_message 2 10 (ascii ''Need help''))]
        @ [(env_at 1010 8 (ascii ''ok''), command_message 1 11 ''away''),
           (env_at 1020 9 (ascii ''ok''), text_message 2 12 (ascii ''hi''))])
       initial_store) 2) = Some True
   \<and> busy_shown (udata (run 1 ascii_lower
       ([(env_at 1000 7 (ascii ''ok''), text_message 2 10 (ascii ''Need help''))]
        @ [(env_at 1010 8 (ascii ''ok''), command_message 1 11 ''away''),
           (env_at 1020 9 (ascii ''ok''), text_message 2 12 (ascii ''hi''))])
       initial_store) 2) = Some True"
  using C6_busy_latch [of 1 ascii_lower
      "[(env_at 1000 7 (ascii ''ok''), text_message 2 10 (ascii ''Need help''))]"
      initial_store 2
      "[(env_at 1010 8 (ascii ''ok''), command_message 1 11 ''away''),
        (env_at 1020 9 (ascii ''ok''), text_message 2 12 (ascii ''hi''))]"]
  by (simp add: eval_defs dispatch_def dispatch2_def command_handler_def filters_TEXT_def
      filters_REPLY_def filters_COMMAND_def filters_PHOTO_def)

subsection \<open>C7: the reply synthesizer\<close>

text \<open>
  C7, as stated, fails on \<^verbatim>\<open>main.py\<close>: for a response without text and without
  candidates the result is \<^verbatim>\<open>str(resp)\<close>, not a fallback text.
\<close>

theorem C7_empty_response_counterexample:
  "safe_ask_gemini ascii_lower
     \<lparr>now = 1000, fwd = Some 7,
      gemini = GenReturns \<lparr>resp_text = None, resp_candidates = [],
                           resp_str = ascii ''candidates=None''\<rparr>,
      rnd = 0\<rparr> = Inr (ascii ''candidates=None'')
   \<and> ascii ''candidates=None'' \<notin> set FALLBACK_RESPONSES
   \<and> ascii ''candidates=None'' \<noteq> message_sent"
  by (simp add: safe_ask_gemini_def ask_gemini_def FALLBACK_RESPONSES_def message_sent_def
      ascii_def)

lemma random_choice_single: "random_choice [x] r = x"
  by (simp add: random_choice_def)

lemma strip_message_sent: "strip message_sent = message_sent"
  by (simp add: strip_def message_sent_def ascii_def py_isspace_def)

lemma service_raises:
  "gemini e = GenRaises x \<Longrightarrow>
     safe_ask_gemini lower e = Inr (message_sent @ ascii ''.'')
     \<and> safe_ask_gemini2 e = Inr message_sent"
  by (simp add: safe_ask_gemini_def ask_gemini_def safe_ask_gemini2_def ask_gemini2_def
      random_choice_single FALLBACK_RESPONSES_def message_sent_def)

text \<open>
  C7, amended: \<^verbatim>\<open>safe_ask_gemini\<close> always returns a text. When the service raises, the
  result is a fixed text: \<^verbatim>\<open>Message sent\<close>, U+2705 and a full stop in \<^verbatim>\<open>main.py\<close>,
  the same without the full stop in the second script; and the router answers the sender
  with that text: an accepted plain text message with no notice pending in \<^verbatim>\<open>main.py\<close>,
  \<^verbatim>\<open>/start\<close> and an accepted greeting in the second script. In the second script a
  response with no text or empty text gives the fixed text too; in \<^verbatim>\<open>main.py\<close> it
  gives the stripped content of the first candidate, or \<^verbatim>\<open>str(resp)\<close> when there is
  no candidate. A response whose text is not empty after stripping gives that text
  stripped.
\<close>

theorem C7_synthesize:
  "(\<exists>t. safe_ask_gemini lower e = Inr t) \<and> (\<exists>t. safe_ask_gemini2 e = Inr t)
   \<and> (gemini e = GenRaises x \<longrightarrow>
         safe_ask_gemini lower e = Inr (message_sent @ ascii ''.'')
         \<and> safe_ask_gemini2 e = Inr message_sent)
   \<and> (gemini e = ThreadRaises x \<longrightarrow>
         (safe_ask_gemini lower e = Inr (message_sent @ ascii ''.'')
          \<or> safe_ask_gemini lower e = Inr message_sent)
         \<and> safe_ask_gemini2 e = Inr message_sent)
   \<and> (gemini e = GenReturns r \<and> (resp_text r = None \<or> resp_text r = Some []) \<longrightarrow>
         safe_ask_gemini2 e = Inr message_sent
         \<and> safe_ask_gemini lower e
             = Inr (case resp_candidates r of [] \<Rightarrow> resp_str r | cand # _ \<Rightarrow> strip cand))
   \<and> (gemini e = GenReturns r \<and> resp_text r = Some t \<and> strip t \<noteq> [] \<longrightarrow>
         safe_ask_gemini lower e = Inr (strip t) \<and> safe_ask_gemini2 e = Inr (strip t))
   \<and> (gemini e = GenRaises x \<and> is_plain_text m
        \<and> \<not> now e - get_last_time (udata s (effective_user_id m)) < 3 / 2
        \<and> admin_status_changed (bdata s) = None \<longrightarrow>
         fst (dispatch ADMIN_ID lower e m s)
           = [ForwardMessage ADMIN_ID (effective_chat_id m) (message_id m),
              SendText (effective_chat_id m) typing_text,
              SendText (effective_chat_id m) (message_sent @ ascii ''.'')])
   \<and> (gemini e = GenRaises x \<and> command m = Some ''start'' \<longrightarrow>
         dispatch2 ADMIN_ID lower e m s = ([SendText (effective_chat_id m) message_sent], s))
   \<and> (gemini e = GenRaises x \<and> is_plain_text m
        \<and> \<not> now e - get_last_time (udata s (effective_user_id m)) < cooldown2
        \<and> lower (take 500 (msg_text m)) \<in> set greetings \<longrightarrow>
         fst (dispatch2 ADMIN_ID lower e m s) = [SendText (effective_chat_id m) message_sent])"
proof -
  have service:
    "(\<exists>t. safe_ask_gemini lower e = Inr t) \<and> (\<exists>t. safe_ask_gemini2 e = Inr t)
     \<and> (gemini e = GenRaises x \<longrightarrow>
           safe_ask_gemini lower e = Inr (message_sent @ ascii ''.'')
           \<and> safe_ask_gemini2 e = Inr message_sent)
     \<and> (gemini e = ThreadRaises x \<longrightarrow>
           (safe_ask_gemini lower e = Inr (message_sent @ ascii ''.'')
            \<or> safe_ask_gemini lower e = Inr message_sent)
           \<and> safe_ask_gemini2 e = Inr message_sent)
     \<and> (gemini e = GenReturns r \<and> (resp_text r = None \<or> resp_text r = Some []) \<longrightarrow>
           safe_ask_gemini2 e = Inr message_sent
           \<and> safe_ask_gemini lower e
               = Inr (case resp_candidates r of [] \<Rightarrow> resp_str r | cand # _ \<Rightarrow> strip cand))
     \<and> (gemini e = GenReturns r \<and> resp_text r = Some t \<and> strip t \<noteq> [] \<longrightarrow>
           safe_ask_gemini lower e = Inr (strip t) \<and> safe_ask_gemini2 e = Inr (strip t))"
    using safe_ask_gemini_total [of lower e] safe_ask_gemini2_total [of e]
    by (auto simp add: safe_ask_gemini_def ask_gemini_def safe_ask_gemini2_def ask_gemini2_def
        random_choice_single FALLBACK_RESPONSES_def FALLBACK_RESPONSES2_def message_sent_def
        strip_def split: list.splits)
  have router1: "fst (dispatch ADMIN_ID lower e m s)
           = [ForwardMessage ADMIN_ID (effective_chat_id m) (message_id m),
              SendText (effective_chat_id m) typing_text,
              SendText (effective_chat_id m) (message_sent @ ascii ''.'')]"
    if "gemini e = GenRaises x" "is_plain_text m"
      "\<not> now e - get_last_time (udata s (effective_user_id m)) < 3 / 2"
      "admin_status_changed (bdata s) = None"
    using handle_message_no_notice [OF that(3,4), of lower ADMIN_ID]
      service_raises [OF that(1), of lower] that(2)
    by (auto simp add: dispatch_plain)
  have router2: "dispatch2 ADMIN_ID lower e m s = ([SendText (effective_chat_id m) message_sent], s)"
    if "gemini e = GenRaises x" "command m = Some ''start''"
    using that service_raises [OF that(1), of lower]
    by (simp add: dispatch2_def command_handler_def start_cmd2_def smart_welcome2_def
        strip_message_sent Let_def)
  have router3: "fst (dispatch2 ADMIN_ID lower e m s) = [SendText (effective_chat_id m) message_sent]"
    if "gemini e = GenRaises x" "is_plain_text m"
      "\<not> now e - get_last_time (udata s (effective_user_id m)) < cooldown2"
      "lower (take 500 (msg_text m)) \<in> set greetings"
    using that service_raises [OF that(1), of lower]
    by (simp add: dispatch2_plain handle_message2_def user_spam2_def smart_welcome2_def
        strip_message_sent Let_def)
  from service router1 router2 router3 show ?thesis by blast
qed

theorem C7_synthesize_witness:
  "safe_ask_gemini ascii_lower
     \<lparr>now = 1000, fwd = Some 7, gemini = GenRaises (ascii ''429 quota''), rnd = 3\<rparr>
     = Inr (message_sent @ ascii ''.'')
   \<and> fst (dispatch 1 ascii_lower
        \<lparr>now = 1000, fwd = Some 7, gemini = GenRaises (ascii ''429 quota''), rnd = 3\<rparr>
        (text_message 2 10 (ascii ''Need help'')) initial_store)
      = [ForwardMessage 1 2 10, SendText 2 typing_text, SendText 2 (message_sent @ ascii ''.'')]
   \<and> dispatch2 1 ascii_lower
        \<lparr>now = 1000, fwd = Some 7, gemini = GenRaises (ascii ''429 quota''), rnd = 3\<rparr>
        (command_message 2 10 ''start'') initial_store
      = ([SendText 2 message_sent], initial_store)
   \<and> fst (dispatch2 1 ascii_lower
        \<lparr>now = 1000, fwd = Some 7, gemini = GenRaises (ascii ''429 quota''), rnd = 3\<rparr>
        (text_message 2 10 (ascii ''Hello'')) initial_store)
      = [SendText 2 message_sent]
   \<and> safe_ask_gemini2 (env_at 1000 7 []) = Inr message_sent
   \<and> safe_ask_gemini ascii_lower (env_at 1000 7 (ascii '' Hello ''))  = Inr (ascii ''Hello'')"
  using C7_synthesize [where e = "\<lparr>now = 1000, fwd = Some 7, gemini = GenRaises (ascii ''429 quota''), rnd = 3\<rparr>"
      and lower = ascii_lower and x = "ascii ''429 quota''" and ADMIN_ID = 1
      and m = "text_message 2 10 (ascii ''Need help'')" and s = initial_store]
    C7_synthesize [where e = "\<lparr>now = 1000, fwd = Some 7, gemini = GenRaises (ascii ''429 quota''), rnd = 3\<rparr>"
      and lower = ascii_lower and x = "ascii ''429 quota''" and ADMIN_ID = 1
      and m = "command_message 2 10 ''start''" and s = initial_store]
    C7_synthesize [where e = "\<lparr>now = 1000, fwd = Some 7, gemini = GenRaises (ascii ''429 quota''), rnd = 3\<rparr>"
      and lower = ascii_lower and x = "ascii ''429 quota''" and ADMIN_ID = 1
      and m = "text_message 2 10 (ascii ''Hello'')" and s = initial_store]
    C7_synthesize [where e = "env_at 1000 7 []" and lower = ascii_lower
      and r = "\<lparr>resp_text = Some [], resp_candidates = [], resp_str = []\<rparr>"]
    C7_synthesize [where e = "env_at 1000 7 (ascii '' Hello '')" and lower = ascii_lower
      and r = "\<lparr>resp_text = Some (ascii '' Hello ''), resp_candidates = [], resp_str = []\<rparr>"
      and t = "ascii '' Hello ''"]
  by (simp add: eval_defs is_plain_text_def filters_TEXT_def filters_REPLY_def
      filters_COMMAND_def filters_PHOTO_def message_sent_def)

subsection \<open>C8: language detection\<close>

text \<open>
  C8, as stated, fails on \<^verbatim>\<open>main.py\<close>: a text with one Devanagari and one Bengali
  code point (U+0915, U+0995) is classified \<^verbatim>\<open>hindi\<close>, not \<^verbatim>\<open>bengali\<close>.
\<close>

theorem C8_bengali_first_counterexample:
  "has_bengali [0x0915, 0x0995] \<and> has_devanagari [0x0915, 0x0995]
   \<and> detect_language [0x0915, 0x0995] = ''hindi''
   \<and> detect_language [0x0915, 0x0995] \<noteq> ''bengali''"
  by (simp add: detect_language_def has_bengali_def has_devanagari_def re_search_range_def)

text \<open>
  C8, amended: detection is a total function of the text alone. In \<^verbatim>\<open>main.py\<close> (the
  variant with Hindi) the result is \<^verbatim>\<open>hindi\<close> if the text has a Devanagari code point,
  else \<^verbatim>\<open>bengali\<close> if it has a Bengali code point, else \<^verbatim>\<open>english\<close>; so a text with
  both scripts is \<^verbatim>\<open>hindi\<close>. In the second script the result is \<^verbatim>\<open>bengali\<close> if the
  text has a Bengali code point, else \<^verbatim>\<open>english\<close>. The empty text is \<^verbatim>\<open>english\<close> in
  both.
\<close>

theorem C8_detect_language:
  "detect_language text =
     (if has_devanagari text then ''hindi''
      else if has_bengali text then ''bengali'' else ''english'')
   \<and> detect_language2 text = (if has_bengali text then ''bengali'' else ''english'')
   \<and> (has_devanagari text \<and> has_bengali text \<longrightarrow> detect_language text = ''hindi'')
   \<and> detect_language [] = ''english'' \<and> detect_language2 [] = ''english''"
  by (simp add: detect_language_def detect_language2_def has_bengali_def has_devanagari_def
      re_search_range_def)

theorem C8_detect_language_witness:
  "has_devanagari [0x0915, 0x0995] \<and> has_bengali [0x0915, 0x0995]
   \<and> detect_language [0x0915, 0x0995] = ''hindi''
   \<and> detect_language2 [0x0915, 0x0995] = ''bengali''
   \<and> detect_language (ascii ''hello'') = ''english''"
  using C8_detect_language [of "[0x0915, 0x0995]"]
  by (simp add: has_bengali_def has_devanagari_def detect_language_def ascii_def
      re_search_range_def re_search_latin_def)

subsection \<open>C9: the greeting branch\<close>

text \<open>
  C9, as stated, fails in the second script: the gate comes before the greeting test, so
  a \<^verbatim>\<open>hi\<close> half a second after an accepted message gets no welcome, and no reply at all.
\<close>

theorem C9_greeting_in_cooldown_counterexample:
  "ascii_lower (take 500 (msg_text (text_message 2 11 (ascii ''hi'')))) \<in> set greetings
   \<and> fst (handle_message2 1 ascii_lower (env_at 1000 7 (ascii ''Welcome Asha''))
        (text_message 2 10 (ascii ''Need help'')) initial_store) \<noteq> []
   \<and> fst (handle_message2 1 ascii_lower (env_at (2001 / 2) 8 (ascii ''Welcome Asha''))
        (text_message 2 11 (ascii ''hi''))
        (snd (handle_message2 1 ascii_lower (env_at 1000 7 (ascii ''Welcome Asha''))
          (text_message 2 10 (ascii ''Need help'')) initial_store))) = []"
  by (simp add: eval_defs)

text \<open>
  C9, amended (second script; \<^verbatim>\<open>main.py\<close> has no greeting branch): a text whose
  lower-cased first 500 code points are one of the greeting tokens goes through the
  cooldown gate like any other text. When the gate blocks it, nothing is sent and nothing
  changes. When the gate lets it pass, \<^verbatim>\<open>handle_message\<close> sends the stripped result of
  the synthesizer as the only transport call and only sets the user's \<^verbatim>\<open>last_time\<close>: no
  forward, no entry in the correlation map, the pending notice and \<^verbatim>\<open>busy_shown\<close> as
  they were.
\<close>

theorem C9_greeting_branch:
  assumes "lower (take 500 (msg_text m)) \<in> set greetings"
  shows "(now e - get_last_time (udata s (effective_user_id m)) < cooldown2 \<longrightarrow>
           handle_message2 ADMIN_ID lower e m s = ([], s))
       \<and> (\<not> now e - get_last_time (udata s (effective_user_id m)) < cooldown2 \<longrightarrow>
           (\<exists>w. safe_ask_gemini2 e = Inr w
              \<and> handle_message2 ADMIN_ID lower e m s
                 = ([SendText (effective_chat_id m) (strip w)],
                    s\<lparr>udata := (udata s)(effective_user_id m :=
                         (udata s (effective_user_id m))\<lparr>last_time := Some (now e)\<rparr>)\<rparr>)))"
  using assms safe_ask_gemini2_total [of e]
  by (auto simp add: handle_message2_def user_spam2_def smart_welcome2_def Let_def)

theorem C9_greeting_branch_witness:
  "handle_message2 1 ascii_lower (env_at 1000 7 (ascii ''Welcome Asha ''))
        (text_message 2 11 (ascii ''Hi'')) initial_store
    = ([SendText 2 (ascii ''Welcome Asha'')],
       initial_store\<lparr>udata := (udata initial_store)(2 := \<lparr>last_time = Some 1000, busy_shown = None\<rparr>)\<rparr>)"
  using C9_greeting_branch [of ascii_lower "text_message 2 11 (ascii ''Hi'')"
      "env_at 1000 7 (ascii ''Welcome Asha '')" initial_store 1]
  by (simp add: eval_defs)

subsection \<open>C10: a user's reply to a message is swallowed\<close>

text \<open>
  C10, as stated, fails for the registered commands: the command handlers come first in
  \<^verbatim>\<open>main()\<close>, so \<^verbatim>\<open>/start\<close> sent by a user as a reply to a message is answered.
\<close>

theorem C10_start_reply_counterexample:
  "effective_user_id ((command_message 2 10 ''start'')\<lparr>reply_to_message := Some 5\<rparr>) \<noteq> 1
   \<and> filters_REPLY ((command_message 2 10 ''start'')\<lparr>reply_to_message := Some 5\<rparr>)
   \<and> filters_TEXT ((command_message 2 10 ''start'')\<lparr>reply_to_message := Some 5\<rparr>)
   \<and> fst (dispatch 1 ascii_lower (env_at 1000 7 (ascii ''ok''))
        ((command_message 2 10 ''start'')\<lparr>reply_to_message := Some 5\<rparr>) initial_store)
      = [SendText 2 typing_text, SendText 2 start_text]"
  by (simp add: dispatch_def command_handler_def start_cmd_def type_animation_def
      command_message_def text_message_def filters_REPLY_def filters_TEXT_def ascii_def)

text \<open>
  C10, amended: for every sender other than the admin, a text message that replies to
  another message and is none of the commands \<^verbatim>\<open>/start\<close>, \<^verbatim>\<open>/available\<close>,
  \<^verbatim>\<open>/away\<close> goes to the reply handler, which returns at once: no transport call and no
  change of state, in both scripts.
\<close>

theorem C10_user_reply_swallowed:
  assumes "effective_user_id m \<noteq> ADMIN_ID"
    and "filters_REPLY m" and "filters_TEXT m"
    and "command m \<noteq> Some ''start''" and "command m \<noteq> Some ''available''"
    and "command m \<noteq> Some ''away''"
  shows "dispatch ADMIN_ID lower e m s = ([], s) \<and> dispatch2 ADMIN_ID lower e m s = ([], s)"
  using assms
  by (simp add: dispatch_def dispatch2_def command_handler_def admin_reply_handler_def
      admin_reply_handler2_def)

theorem C10_user_reply_swallowed_witness:
  "dispatch 1 ascii_lower (env_at 1000 7 (ascii ''ok'')) (reply_message 2 10 (ascii ''thanks'') 5)
      initial_store = ([], initial_store)
   \<and> dispatch2 1 ascii_lower (env_at 1000 7 (ascii ''ok'')) (reply_message 2 10 (ascii ''thanks'') 5)
      initial_store = ([], initial_store)"
  using C10_user_reply_swallowed [of "reply_message 2 10 (ascii ''thanks'') 5" 1 ascii_lower
      "env_at 1000 7 (ascii ''ok'')" initial_store]
  by (simp add: reply_message_def text_message_def filters_REPLY_def filters_TEXT_def ascii_def)

end
